theory Spec2Isabelle
  imports Main "HOL-Library.Char_ord" "HOL-Library.List_Lexorder"
begin

section \<open>Sprint Pulse: the schema, its row-level security and the API routes\<close>

text \<open>
  The repository keeps its rules in two places: the SQL migrations
  (\<^verbatim>\<open>20260203071900_init_db.sql\<close>, \<^verbatim>\<open>20260211124400_create_survey_with_questions_rpc.sql\<close>)
  declare tables, check constraints, foreign keys, triggers and row-level security policies,
  and the Hono routes (\<^verbatim>\<open>teams.ts\<close>, \<^verbatim>\<open>sprints.ts\<close>, \<^verbatim>\<open>surveys.ts\<close>) sequence calls to the
  store. The store is modelled as a record of tables (lists of rows); a statement is a
  function from the store to an error or the new store; a route returns the store it leaves
  behind together with its HTTP response.
\<close>

subsection \<open>Values\<close>

text \<open>Identifiers are opaque tokens (\<^verbatim>\<open>uuid\<close>); instants are points on a line.\<close>

type_synonym uuid = nat
type_synonym timestamptz = nat

text \<open>A calendar date (\<^verbatim>\<open>date\<close> columns): year, month, day.\<close>

type_synonym date = "nat \<times> nat \<times> nat"

definition date_ge :: "date \<Rightarrow> date \<Rightarrow> bool" where
  "date_ge e s =
     (case e of (ey, em, ed) \<Rightarrow> case s of (sy, sm, sd) \<Rightarrow>
        sy < ey \<or> (sy = ey \<and> (sm < em \<or> (sm = em \<and> sd \<le> ed))))"

text \<open>
  The acting identity: \<^verbatim>\<open>auth.uid()\<close> is null for a request without a user (role
  \<^verbatim>\<open>anon\<close>) and the user's id otherwise (role \<^verbatim>\<open>authenticated\<close>).
\<close>

type_synonym actor = "uuid option"

datatype pg_role = anon | authenticated

definition auth_role :: "actor \<Rightarrow> pg_role" where
  "auth_role a = (case a of None \<Rightarrow> anon | Some _ \<Rightarrow> authenticated)"

subsection \<open>Rows and the store\<close>

text \<open>
  One record per table, with the columns that a policy, constraint, trigger, foreign key or
  route reads or writes. Nullable columns are options. The \<^verbatim>\<open>created_at\<close> and
  \<^verbatim>\<open>updated_at\<close> stamps, which nothing reads, are left out.
\<close>

record account =
  acc_id :: uuid
  acc_name :: string
  acc_slug :: string
  acc_is_test_tenant :: "bool option"
  acc_owner_user_id :: uuid

record account_member =
  am_account_id :: uuid
  am_user_id :: uuid
  am_role :: string

record team =
  team_id :: uuid
  team_account_id :: uuid
  team_name :: string
  team_deleted_at :: "timestamptz option"

record team_member =
  tm_team_id :: uuid
  tm_user_id :: uuid
  tm_role :: string

record sprint =
  sprint_id :: uuid
  sprint_team_id :: uuid
  sprint_account_id :: uuid
  sprint_name :: string
  sprint_goal :: "string option"
  sprint_start_date :: date
  sprint_end_date :: date
  sprint_status :: string

text \<open>
  \<^verbatim>\<open>surveys\<close> as declared has no \<^verbatim>\<open>is_active\<close> column, yet both creation paths name it
  in their insert. The column list of the relation is therefore part of the store
  (\<open>surveys_columns\<close> below), and the row carries the value for a store that has the column.
\<close>

record survey =
  survey_id :: uuid
  survey_team_id :: "uuid option"
  survey_title :: string
  survey_is_system_template :: "bool option"
  survey_account_id :: uuid
  survey_is_active :: "bool option"

record survey_question =
  sq_id :: uuid
  sq_survey_id :: "uuid option"
  sq_question_text :: string
  sq_response_type :: string
  sq_order_index :: int
  sq_is_required :: "bool option"

record survey_response =
  sr_id :: uuid
  sr_survey_id :: "uuid option"
  sr_user_id :: "uuid option"
  sr_sprint_id :: "uuid option"
  sr_is_confidential :: "bool option"

record survey_answer =
  sa_id :: uuid
  sa_response_id :: "uuid option"
  sa_question_id :: "uuid option"

record kudos =
  kudos_id :: uuid
  kudos_team_id :: "uuid option"
  kudos_sender_user_id :: "uuid option"
  kudos_receiver_user_id :: "uuid option"
  kudos_sprint_id :: "uuid option"
  kudos_account_id :: uuid
  kudos_message :: string

record work_item =
  wi_id :: uuid
  wi_team_id :: uuid
  wi_account_id :: uuid
  wi_sprint_id :: "uuid option"
  wi_title :: string
  wi_story_points :: int
  wi_status :: string
  wi_type :: string
  wi_provider :: string
  wi_completed_at :: "timestamptz option"

record sprint_commitment =
  sc_id :: uuid
  sc_sprint_id :: uuid
  sc_user_id :: "uuid option"

record sprint_snapshot =
  ss_id :: uuid
  ss_sprint_id :: uuid
  ss_user_id :: "uuid option"

record db =
  accounts :: "account list"
  account_members :: "account_member list"
  teams :: "team list"
  team_members :: "team_member list"
  sprints :: "sprint list"
  surveys :: "survey list"
  surveys_columns :: "string list"
  survey_questions :: "survey_question list"
  survey_responses :: "survey_response list"
  survey_answers :: "survey_answer list"
  kudos_rows :: "kudos list"
  work_items :: "work_item list"
  sprint_commitments :: "sprint_commitment list"
  sprint_snapshots :: "sprint_snapshot list"

text \<open>The columns of \<^verbatim>\<open>public.surveys\<close> as \<^verbatim>\<open>init_db.sql\<close> creates the table.\<close>

definition init_db_surveys_columns :: "string list" where
  "init_db_surveys_columns =
     [''id'', ''team_id'', ''title'', ''description'', ''is_system_template'',
      ''account_id'', ''trigger_event'', ''created_at'']"

subsection \<open>Errors of the store\<close>

datatype pg_error =
    undefined_column string string
  | insufficient_privilege string
  | not_null_violation string string
  | check_violation string string
  | unique_violation string
  | foreign_key_violation string string
  | foreign_key_restrict string string string
  | cardinality_violation
  | numeric_value_out_of_range
  | datetime_field_overflow string
  | raise_exception string
  | PGRST116
  | PGRST204 string string

text \<open>\<^verbatim>\<open>error.code\<close>: the SQLSTATE, or the API layer's own code.\<close>

fun code :: "pg_error \<Rightarrow> string" where
  "code (undefined_column _ _) = ''42703''"
| "code (insufficient_privilege _) = ''42501''"
| "code (not_null_violation _ _) = ''23502''"
| "code (check_violation _ _) = ''23514''"
| "code (unique_violation _) = ''23505''"
| "code (foreign_key_violation _ _) = ''23503''"
| "code (foreign_key_restrict _ _ _) = ''23503''"
| "code cardinality_violation = ''21000''"
| "code numeric_value_out_of_range = ''22003''"
| "code (datetime_field_overflow _) = ''22008''"
| "code (raise_exception _) = ''P0001''"
| "code PGRST116 = ''PGRST116''"
| "code (PGRST204 _ _) = ''PGRST204''"

text \<open>
  \<^verbatim>\<open>error.message\<close>, with the quotation marks around identifiers left out. For a number
  outside \<^verbatim>\<open>int\<close> the store's message also quotes the offending value; the short form
  stands for it here.
\<close>

fun message :: "pg_error \<Rightarrow> string" where
  "message (undefined_column rel col) =
     ''column '' @ col @ '' of relation '' @ rel @ '' does not exist''"
| "message (insufficient_privilege rel) =
     ''new row violates row-level security policy for table '' @ rel"
| "message (not_null_violation rel col) =
     ''null value in column '' @ col @ '' of relation '' @ rel @ '' violates not-null constraint''"
| "message (check_violation rel con) =
     ''new row for relation '' @ rel @ '' violates check constraint '' @ con"
| "message (unique_violation con) =
     ''duplicate key value violates unique constraint '' @ con"
| "message (foreign_key_violation rel con) =
     ''insert or update on table '' @ rel @ '' violates foreign key constraint '' @ con"
| "message (foreign_key_restrict rel con other) =
     ''update or delete on table '' @ rel @ '' violates foreign key constraint '' @ con
       @ '' on table '' @ other"
| "message cardinality_violation =
     ''more than one row returned by a subquery used as an expression''"
| "message numeric_value_out_of_range = ''integer out of range''"
| "message (datetime_field_overflow s) = ''date/time field value out of range: '' @ s"
| "message (raise_exception m) = m"
| "message PGRST116 = ''JSON object requested, multiple (or no) rows returned''"
| "message (PGRST204 rel col) =
     ''Could not find the '' @ col @ '' column of '' @ rel @ '' in the schema cache''"

subsection \<open>Security helpers\<close>

text \<open>
  \<^verbatim>\<open>is_account_member\<close> and \<^verbatim>\<open>is_team_member\<close> are \<^verbatim>\<open>security definer\<close>: they read their
  table as it is, whoever calls. A null uid or a null team id matches no row.
\<close>

definition is_account_member :: "db \<Rightarrow> actor \<Rightarrow> uuid \<Rightarrow> bool" where
  "is_account_member d a p_account_id =
     (case a of None \<Rightarrow> False
      | Some uid \<Rightarrow> \<exists>am \<in> set (account_members d).
                      am_account_id am = p_account_id \<and> am_user_id am = uid)"

definition is_team_member :: "db \<Rightarrow> actor \<Rightarrow> uuid option \<Rightarrow> bool" where
  "is_team_member d a p_team_id =
     (case a of None \<Rightarrow> False
      | Some uid \<Rightarrow>
          (case p_team_id of None \<Rightarrow> False
           | Some t \<Rightarrow> \<exists>tm \<in> set (team_members d). tm_team_id tm = t \<and> tm_user_id tm = uid))"

subsection \<open>Row-level security\<close>

text \<open>
  A policy is declared \<^verbatim>\<open>for\<close> one command or all, \<^verbatim>\<open>to\<close> a role or to everyone, with a
  \<^verbatim>\<open>using\<close> expression (rows that exist) and a \<^verbatim>\<open>with check\<close> expression (rows being
  written). An expression holds when it evaluates to true; null counts as not true.
  All policies of the schema are permissive: a row passes when one applicable policy
  passes, and no applicable policy means no access. A policy without \<^verbatim>\<open>with check\<close>
  checks written rows with its \<^verbatim>\<open>using\<close> expression.
\<close>

datatype command = SELECT | INSERT | UPDATE | DELETE

record 'r policy =
  pol_for :: "command option"
  pol_to :: "pg_role option"
  pol_using :: "(db \<Rightarrow> actor \<Rightarrow> 'r \<Rightarrow> bool) option"
  pol_with_check :: "(db \<Rightarrow> actor \<Rightarrow> 'r \<Rightarrow> bool) option"

definition applicable :: "'r policy \<Rightarrow> actor \<Rightarrow> command \<Rightarrow> bool" where
  "applicable p a c =
     ((pol_for p = None \<or> pol_for p = Some c) \<and>
      (pol_to p = None \<or> pol_to p = Some (auth_role a)))"

definition using_expr :: "'r policy \<Rightarrow> db \<Rightarrow> actor \<Rightarrow> 'r \<Rightarrow> bool" where
  "using_expr p d a r = (case pol_using p of None \<Rightarrow> True | Some u \<Rightarrow> u d a r)"

definition with_check_expr :: "'r policy \<Rightarrow> db \<Rightarrow> actor \<Rightarrow> 'r \<Rightarrow> bool" where
  "with_check_expr p d a r =
     (case pol_with_check p of None \<Rightarrow> using_expr p d a r | Some w \<Rightarrow> w d a r)"

definition rls_using :: "'r policy list \<Rightarrow> db \<Rightarrow> actor \<Rightarrow> command \<Rightarrow> 'r \<Rightarrow> bool" where
  "rls_using ps d a c r = (\<exists>p \<in> set ps. applicable p a c \<and> using_expr p d a r)"

definition rls_with_check :: "'r policy list \<Rightarrow> db \<Rightarrow> actor \<Rightarrow> command \<Rightarrow> 'r \<Rightarrow> bool" where
  "rls_with_check ps d a c r = (\<exists>p \<in> set ps. applicable p a c \<and> with_check_expr p d a r)"

text \<open>
  What a statement needs of a row, by command. An update or delete that filters on a
  column (every one of the routes does) also needs the select policies of the row, and so
  does an insert that returns the row it wrote (\<open>may_insert\<close> together with
  \<open>may_read\<close>). An update needs \<open>may_update_from\<close> of the stored row and
  \<open>may_update_to\<close> of the row it becomes.
\<close>

definition may_read :: "'r policy list \<Rightarrow> db \<Rightarrow> actor \<Rightarrow> 'r \<Rightarrow> bool" where
  "may_read ps d a r = rls_using ps d a SELECT r"

definition may_insert :: "'r policy list \<Rightarrow> db \<Rightarrow> actor \<Rightarrow> 'r \<Rightarrow> bool" where
  "may_insert ps d a r = rls_with_check ps d a INSERT r"

definition may_update_from :: "'r policy list \<Rightarrow> db \<Rightarrow> actor \<Rightarrow> 'r \<Rightarrow> bool" where
  "may_update_from ps d a r = (rls_using ps d a UPDATE r \<and> rls_using ps d a SELECT r)"

definition may_update_to :: "'r policy list \<Rightarrow> db \<Rightarrow> actor \<Rightarrow> 'r \<Rightarrow> bool" where
  "may_update_to ps d a r = (rls_with_check ps d a UPDATE r \<and> rls_using ps d a SELECT r)"

definition may_delete :: "'r policy list \<Rightarrow> db \<Rightarrow> actor \<Rightarrow> 'r \<Rightarrow> bool" where
  "may_delete ps d a r = (rls_using ps d a DELETE r \<and> rls_using ps d a SELECT r)"

text \<open>The decision for one command on one row: the stored row, or the row to be written.\<close>

fun permitted :: "'r policy list \<Rightarrow> db \<Rightarrow> actor \<Rightarrow> command \<Rightarrow> 'r \<Rightarrow> bool" where
  "permitted ps d a SELECT r = may_read ps d a r"
| "permitted ps d a INSERT r = may_insert ps d a r"
| "permitted ps d a UPDATE r = may_update_from ps d a r"
| "permitted ps d a DELETE r = may_delete ps d a r"

subsection \<open>Policies of the schema\<close>

text \<open>
  \<^verbatim>\<open>accounts\<close>: "View own accounts", "Create accounts", "Update own accounts".
  The check of the update policy is
  \<^verbatim>\<open>(is_test_tenant = true) OR (is_test_tenant is not distinct from
     (select is_test_tenant from public.accounts where id = id))\<close>.
  Inside the sub-select both \<^verbatim>\<open>id\<close> name the column of the sub-select's own
  \<^verbatim>\<open>accounts\<close>, so its filter holds of every row and it returns the flag of every account
  the actor can see, as stored before the update. A scalar sub-select with no row is null,
  with one row that row's value, with more rows an error. It is evaluated only when the
  first disjunct is not true.
\<close>

definition view_own_accounts :: "account policy" where
  "view_own_accounts =
     \<lparr>pol_for = Some SELECT, pol_to = None,
      pol_using = Some (\<lambda>d a r. is_account_member d a (acc_id r)),
      pol_with_check = None\<rparr>"

definition visible_accounts :: "db \<Rightarrow> actor \<Rightarrow> account list" where
  "visible_accounts d a = filter (may_read [view_own_accounts] d a) (accounts d)"

definition update_own_accounts_check :: "db \<Rightarrow> actor \<Rightarrow> account \<Rightarrow> pg_error + bool" where
  "update_own_accounts_check d a r =
     (if acc_is_test_tenant r = Some True then Inr True
      else (case map acc_is_test_tenant (visible_accounts d a) of
              [] \<Rightarrow> Inr (acc_is_test_tenant r = None)
            | [stored] \<Rightarrow> Inr (acc_is_test_tenant r = stored)
            | _ # _ # _ \<Rightarrow> Inl cardinality_violation))"

definition accounts_policies :: "account policy list" where
  "accounts_policies =
     [view_own_accounts,
      \<lparr>pol_for = Some INSERT, pol_to = None,
       pol_using = None,
       pol_with_check = Some (\<lambda>d a r. auth_role a = authenticated)\<rparr>,
      \<lparr>pol_for = Some UPDATE, pol_to = None,
       pol_using = Some (\<lambda>d a r. is_account_member d a (acc_id r)),
       pol_with_check = Some (\<lambda>d a r. update_own_accounts_check d a r = Inr True)\<rparr>]"

text \<open>\<^verbatim>\<open>account_members\<close>: "View account members"; "Join accounts".\<close>

definition account_members_policies :: "account_member policy list" where
  "account_members_policies =
     [\<lparr>pol_for = Some SELECT, pol_to = None,
       pol_using = Some (\<lambda>d a r. is_account_member d a (am_account_id r)),
       pol_with_check = None\<rparr>,
      \<lparr>pol_for = Some INSERT, pol_to = None,
       pol_using = None,
       pol_with_check = Some (\<lambda>d a r. a = Some (am_user_id r))\<rparr>]"

text \<open>A sub-select inside a policy reads the other table through that table's own select
  policies, as the acting role.\<close>

definition visible_account_members :: "db \<Rightarrow> actor \<Rightarrow> account_member list" where
  "visible_account_members d a =
     filter (may_read account_members_policies d a) (account_members d)"

text \<open>\<^verbatim>\<open>teams\<close>: "View teams in account"; "Create teams (Admin/Owner)".\<close>

definition teams_policies :: "team policy list" where
  "teams_policies =
     [\<lparr>pol_for = Some SELECT, pol_to = Some authenticated,
       pol_using = Some (\<lambda>d a r. is_account_member d a (team_account_id r)),
       pol_with_check = None\<rparr>,
      \<lparr>pol_for = Some INSERT, pol_to = Some authenticated,
       pol_using = None,
       pol_with_check = Some (\<lambda>d a r.
         \<exists>am \<in> set (visible_account_members d a).
            am_account_id am = team_account_id r \<and> a = Some (am_user_id am) \<and>
            am_role am \<in> {''owner'', ''admin''})\<rparr>]"

definition visible_teams :: "db \<Rightarrow> actor \<Rightarrow> team list" where
  "visible_teams d a = filter (may_read teams_policies d a) (teams d)"

text \<open>\<^verbatim>\<open>team_members\<close>: "View team members" is its only policy.\<close>

definition team_members_policies :: "team_member policy list" where
  "team_members_policies =
     [\<lparr>pol_for = Some SELECT, pol_to = Some authenticated,
       pol_using = Some (\<lambda>d a r.
         \<exists>t \<in> set (visible_teams d a).
            team_id t = tm_team_id r \<and> is_account_member d a (team_account_id t)),
       pol_with_check = None\<rparr>]"

definition visible_team_members :: "db \<Rightarrow> actor \<Rightarrow> team_member list" where
  "visible_team_members d a = filter (may_read team_members_policies d a) (team_members d)"

text \<open>\<^verbatim>\<open>sprints\<close>: "Tenant Isolation: Sprints", for all commands.\<close>

definition sprints_policies :: "sprint policy list" where
  "sprints_policies =
     [\<lparr>pol_for = None, pol_to = None,
       pol_using = Some (\<lambda>d a r. is_account_member d a (sprint_account_id r)),
       pol_with_check = Some (\<lambda>d a r. is_account_member d a (sprint_account_id r))\<rparr>]"

text \<open>\<^verbatim>\<open>work_items\<close>: "Tenant Isolation: Work Items", for all commands.\<close>

definition work_items_policies :: "work_item policy list" where
  "work_items_policies =
     [\<lparr>pol_for = None, pol_to = None,
       pol_using = Some (\<lambda>d a r. is_account_member d a (wi_account_id r)),
       pol_with_check = Some (\<lambda>d a r. is_account_member d a (wi_account_id r))\<rparr>]"

text \<open>
  \<^verbatim>\<open>surveys\<close>: "View surveys" (team members see team surveys, everyone signed in sees
  system templates) and "Manage surveys" (team leads, all commands). \<open>is_team_lead\<close> is
  the sub-select of "Manage surveys": a row of \<^verbatim>\<open>team_members\<close>, among those the actor
  may read, that makes the actor a lead of the team.
\<close>

definition is_team_lead :: "db \<Rightarrow> actor \<Rightarrow> uuid option \<Rightarrow> bool" where
  "is_team_lead d a t =
     (\<exists>tm \<in> set (visible_team_members d a).
        Some (tm_team_id tm) = t \<and> a = Some (tm_user_id tm) \<and> tm_role tm = ''lead'')"

definition surveys_policies :: "survey policy list" where
  "surveys_policies =
     [\<lparr>pol_for = Some SELECT, pol_to = Some authenticated,
       pol_using = Some (\<lambda>d a r.
         (survey_team_id r = None \<and> survey_is_system_template r = Some True)
         \<or> is_team_member d a (survey_team_id r)),
       pol_with_check = None\<rparr>,
      \<lparr>pol_for = None, pol_to = Some authenticated,
       pol_using = Some (\<lambda>d a r. is_team_lead d a (survey_team_id r)),
       pol_with_check = None\<rparr>]"

definition visible_surveys :: "db \<Rightarrow> actor \<Rightarrow> survey list" where
  "visible_surveys d a = filter (may_read surveys_policies d a) (surveys d)"

text \<open>\<^verbatim>\<open>survey_questions\<close>: "View questions" and "Manage questions".\<close>

definition survey_questions_policies :: "survey_question policy list" where
  "survey_questions_policies =
     [\<lparr>pol_for = Some SELECT, pol_to = Some authenticated,
       pol_using = Some (\<lambda>d a r.
         \<exists>s \<in> set (visible_surveys d a). Some (survey_id s) = sq_survey_id r),
       pol_with_check = None\<rparr>,
      \<lparr>pol_for = None, pol_to = Some authenticated,
       pol_using = Some (\<lambda>d a r.
         \<exists>s \<in> set (visible_surveys d a).
            Some (survey_id s) = sq_survey_id r \<and> is_team_lead d a (survey_team_id s)),
       pol_with_check = None\<rparr>]"

subsection \<open>Statements over several rows\<close>

text \<open>
  \<^verbatim>\<open>UPDATE t SET ... WHERE ...\<close>: every target row is rewritten, the other rows stay, and
  the first row that fails fails the statement, which then changes nothing.
\<close>

fun update_rows :: "('r \<Rightarrow> bool) \<Rightarrow> ('r \<Rightarrow> pg_error + 'r) \<Rightarrow> 'r list \<Rightarrow> pg_error + 'r list" where
  "update_rows tgt f [] = Inr []"
| "update_rows tgt f (r # rs) =
     (if tgt r
      then (case f r of
              Inl e \<Rightarrow> Inl e
            | Inr n \<Rightarrow> (case update_rows tgt f rs of Inl e \<Rightarrow> Inl e | Inr ns \<Rightarrow> Inr (n # ns)))
      else (case update_rows tgt f rs of Inl e \<Rightarrow> Inl e | Inr ns \<Rightarrow> Inr (r # ns)))"

text \<open>What a call left in the store: a statement that fails leaves the store as it was.\<close>

definition persisted :: "db \<Rightarrow> pg_error + db \<Rightarrow> db" where
  "persisted d r = (case r of Inl _ \<Rightarrow> d | Inr d' \<Rightarrow> d')"

subsection \<open>Responses of the routes\<close>

datatype body =
    error_body string
  | message_body string
  | validation_body
  | sprint_body sprint
  | team_body team
  | team_partial_body string pg_error team
  | survey_body survey "survey_question list"
  | rpc_body uuid uuid string "survey_question list"

type_synonym response = "nat \<times> body"

subsection \<open>Dates at the boundary\<close>

text \<open>
  \<^verbatim>\<open>DateString\<close> is the regular expression \<^verbatim>\<open>^\d{4}-\d{2}-\d{2}$\<close>. The schemas compare two
  such strings with \<^verbatim>\<open>>=\<close>, which orders strings by their code units. The store reads the
  string into a \<^verbatim>\<open>date\<close> and refuses a year 0, a month outside 1..12 and a day the month
  does not have.
\<close>

definition is_digit :: "char \<Rightarrow> bool" where
  "is_digit c = (CHR ''0'' \<le> c \<and> c \<le> CHR ''9'')"

definition DateString :: "string \<Rightarrow> bool" where
  "DateString s =
     (length s = 10 \<and> list_all (\<lambda>i. is_digit (s ! i)) [0, 1, 2, 3, 5, 6, 8, 9] \<and>
      s ! 4 = CHR ''-'' \<and> s ! 7 = CHR ''-'')"

definition digits_val :: "string \<Rightarrow> nat" where
  "digits_val s = foldl (\<lambda>n c. 10 * n + (of_char c - 48)) 0 s"

definition leap_year :: "nat \<Rightarrow> bool" where
  "leap_year y = (y mod 4 = 0 \<and> (y mod 100 \<noteq> 0 \<or> y mod 400 = 0))"

definition days_in_month :: "nat \<Rightarrow> nat \<Rightarrow> nat" where
  "days_in_month y m =
     (if m = 2 then (if leap_year y then 29 else 28)
      else if m \<in> {4, 6, 9, 11} then 30 else 31)"

definition date_in :: "string \<Rightarrow> pg_error + date" where
  "date_in s =
     (let y = digits_val (take 4 s); m = digits_val (take 2 (drop 5 s));
          dd = digits_val (drop 8 s)
      in if 1 \<le> y \<and> 1 \<le> m \<and> m \<le> 12 \<and> 1 \<le> dd \<and> dd \<le> days_in_month y m
         then Inr (y, m, dd) else Inl (datetime_field_overflow s))"

subsection \<open>Sprints\<close>

text \<open>The two check constraints of \<^verbatim>\<open>sprints\<close>.\<close>

definition sprints_status_check :: "sprint \<Rightarrow> bool" where
  "sprints_status_check r = (sprint_status r \<in> {''planned'', ''active'', ''completed''})"

definition valid_dates :: "sprint \<Rightarrow> bool" where
  "valid_dates r = date_ge (sprint_end_date r) (sprint_start_date r)"

text \<open>
  \<^verbatim>\<open>insert into sprints ... returning *\<close> as the acting role: the policies, the check
  constraints, the primary key, then the two foreign keys.
\<close>

definition insert_sprint :: "db \<Rightarrow> actor \<Rightarrow> sprint \<Rightarrow> pg_error + db" where
  "insert_sprint d a r =
     (if \<not> (may_insert sprints_policies d a r \<and> may_read sprints_policies d a r)
      then Inl (insufficient_privilege ''sprints'')
      else if \<not> sprints_status_check r
      then Inl (check_violation ''sprints'' ''sprints_status_check'')
      else if \<not> valid_dates r then Inl (check_violation ''sprints'' ''valid_dates'')
      else if sprint_id r \<in> sprint_id ` set (sprints d)
      then Inl (unique_violation ''sprints_pkey'')
      else if sprint_team_id r \<notin> team_id ` set (teams d)
      then Inl (foreign_key_violation ''sprints'' ''sprints_team_id_fkey'')
      else if sprint_account_id r \<notin> acc_id ` set (accounts d)
      then Inl (foreign_key_violation ''sprints'' ''sprints_account_id_fkey'')
      else Inr (d\<lparr>sprints := sprints d @ [r]\<rparr>))"

text \<open>The body of \<^verbatim>\<open>POST /sprints\<close> once parsed, and \<^verbatim>\<open>CreateSprintSchema\<close>.\<close>

record create_sprint_body =
  csb_team_id :: uuid
  csb_name :: string
  csb_start_date :: string
  csb_end_date :: string
  csb_goal :: "string option"
  csb_status :: string

definition SprintStatusEnum :: "string \<Rightarrow> bool" where
  "SprintStatusEnum s = (s \<in> {''planned'', ''active'', ''completed''})"

definition CreateSprintSchema :: "create_sprint_body \<Rightarrow> bool" where
  "CreateSprintSchema b =
     (csb_name b \<noteq> [] \<and> DateString (csb_start_date b) \<and> DateString (csb_end_date b) \<and>
      SprintStatusEnum (csb_status b) \<and> csb_end_date b \<ge> csb_start_date b)"

text \<open>
  \<^verbatim>\<open>POST /sprints\<close>: validate, look the team up (through the policies of \<^verbatim>\<open>teams\<close>) for
  its account, insert. \<open>new_id\<close> is the identifier the store generates for the row.
\<close>

definition post_sprint :: "db \<Rightarrow> actor \<Rightarrow> uuid \<Rightarrow> create_sprint_body \<Rightarrow> db \<times> response" where
  "post_sprint d a new_id b =
     (if \<not> CreateSprintSchema b then (d, 400, validation_body)
      else (case filter (\<lambda>t. team_id t = csb_team_id b) (visible_teams d a) of
              [t] \<Rightarrow>
                (case date_in (csb_start_date b) of
                   Inl e \<Rightarrow> (d, 500, error_body (message e))
                 | Inr sd \<Rightarrow>
                     (case date_in (csb_end_date b) of
                        Inl e \<Rightarrow> (d, 500, error_body (message e))
                      | Inr ed \<Rightarrow>
                          (let r = \<lparr>sprint_id = new_id, sprint_team_id = csb_team_id b,
                                    sprint_account_id = team_account_id t,
                                    sprint_name = csb_name b, sprint_goal = csb_goal b,
                                    sprint_start_date = sd, sprint_end_date = ed,
                                    sprint_status = csb_status b\<rparr>
                           in case insert_sprint d a r of
                                Inl e \<Rightarrow> (d, 500, error_body (message e))
                              | Inr d' \<Rightarrow> (d', 201, sprint_body r))))
            | _ \<Rightarrow> (d, 404, error_body ''Team not found'')))"

text \<open>
  \<^verbatim>\<open>update sprints set ... where id = $1 returning *\<close>, read as a single object. The patch
  holds the columns the request names. A request that names none, or that reaches no row
  or several, is answered with \<open>PGRST116\<close> and changes nothing.
\<close>

record sprint_patch =
  sp_name :: "string option"
  sp_start_date :: "date option"
  sp_end_date :: "date option"
  sp_goal :: "string option option"
  sp_status :: "string option"

definition sprint_patch_empty :: "sprint_patch \<Rightarrow> bool" where
  "sprint_patch_empty p =
     (sp_name p = None \<and> sp_start_date p = None \<and> sp_end_date p = None \<and>
      sp_goal p = None \<and> sp_status p = None)"

definition apply_sprint_patch :: "sprint_patch \<Rightarrow> sprint \<Rightarrow> sprint" where
  "apply_sprint_patch p r =
     r\<lparr>sprint_name := (case sp_name p of None \<Rightarrow> sprint_name r | Some v \<Rightarrow> v),
       sprint_start_date := (case sp_start_date p of None \<Rightarrow> sprint_start_date r | Some v \<Rightarrow> v),
       sprint_end_date := (case sp_end_date p of None \<Rightarrow> sprint_end_date r | Some v \<Rightarrow> v),
       sprint_goal := (case sp_goal p of None \<Rightarrow> sprint_goal r | Some v \<Rightarrow> v),
       sprint_status := (case sp_status p of None \<Rightarrow> sprint_status r | Some v \<Rightarrow> v)\<rparr>"

definition update_sprint_row :: "db \<Rightarrow> actor \<Rightarrow> sprint_patch \<Rightarrow> sprint \<Rightarrow> pg_error + sprint" where
  "update_sprint_row d a p r =
     (let n = apply_sprint_patch p r
      in if \<not> may_update_to sprints_policies d a n then Inl (insufficient_privilege ''sprints'')
         else if \<not> sprints_status_check n
         then Inl (check_violation ''sprints'' ''sprints_status_check'')
         else if \<not> valid_dates n then Inl (check_violation ''sprints'' ''valid_dates'')
         else Inr n)"

definition update_sprint :: "db \<Rightarrow> actor \<Rightarrow> uuid \<Rightarrow> sprint_patch \<Rightarrow> pg_error + db \<times> sprint" where
  "update_sprint d a i p =
     (let tgt = (\<lambda>r. sprint_id r = i \<and> may_update_from sprints_policies d a r)
      in if sprint_patch_empty p then Inl PGRST116
         else (case filter tgt (sprints d) of
                 [r] \<Rightarrow>
                   (case update_sprint_row d a p r of
                      Inl e \<Rightarrow> Inl e
                    | Inr n \<Rightarrow>
                        Inr (d\<lparr>sprints := map (\<lambda>x. if tgt x then n else x) (sprints d)\<rparr>, n))
               | _ \<Rightarrow> Inl PGRST116))"

text \<open>The body of \<^verbatim>\<open>PATCH /sprints/:id\<close> once parsed, and \<^verbatim>\<open>UpdateSprintSchema\<close>.\<close>

record update_sprint_body =
  usb_name :: "string option"
  usb_start_date :: "string option"
  usb_end_date :: "string option"
  usb_goal :: "string option option"
  usb_status :: "string option"

definition UpdateSprintSchema :: "update_sprint_body \<Rightarrow> bool" where
  "UpdateSprintSchema b =
     ((case usb_name b of None \<Rightarrow> True | Some n \<Rightarrow> n \<noteq> []) \<and>
      (case usb_start_date b of None \<Rightarrow> True | Some s \<Rightarrow> DateString s) \<and>
      (case usb_end_date b of None \<Rightarrow> True | Some s \<Rightarrow> DateString s) \<and>
      (case usb_status b of None \<Rightarrow> True | Some s \<Rightarrow> SprintStatusEnum s) \<and>
      (case (usb_start_date b, usb_end_date b) of
         (Some s, Some e) \<Rightarrow> e \<ge> s
       | _ \<Rightarrow> True))"

definition date_in_opt :: "string option \<Rightarrow> pg_error + date option" where
  "date_in_opt s =
     (case s of None \<Rightarrow> Inr None
      | Some v \<Rightarrow> (case date_in v of Inl e \<Rightarrow> Inl e | Inr dt \<Rightarrow> Inr (Some dt)))"

definition patch_sprint :: "db \<Rightarrow> actor \<Rightarrow> uuid \<Rightarrow> update_sprint_body \<Rightarrow> db \<times> response" where
  "patch_sprint d a i b =
     (if \<not> UpdateSprintSchema b then (d, 400, validation_body)
      else (case date_in_opt (usb_start_date b) of
              Inl e \<Rightarrow> (d, 500, error_body (message e))
            | Inr sd \<Rightarrow>
                (case date_in_opt (usb_end_date b) of
                   Inl e \<Rightarrow> (d, 500, error_body (message e))
                 | Inr ed \<Rightarrow>
                     (case update_sprint d a i
                             \<lparr>sp_name = usb_name b, sp_start_date = sd, sp_end_date = ed,
                              sp_goal = usb_goal b, sp_status = usb_status b\<rparr> of
                        Inl e \<Rightarrow> (d, 500, error_body (message e))
                      | Inr (d', r) \<Rightarrow> (d', 200, sprint_body r)))))"

text \<open>
  \<^verbatim>\<open>delete from sprints where id = $1\<close>. The rows that reference a sprint:
  \<^verbatim>\<open>work_items.sprint_id\<close> is \<^verbatim>\<open>on delete set null\<close>; \<^verbatim>\<open>survey_responses.sprint_id\<close>,
  \<^verbatim>\<open>sprint_commitments.sprint_id\<close> and \<^verbatim>\<open>sprint_snapshots.sprint_id\<close> are
  \<^verbatim>\<open>on delete cascade\<close> (and \<^verbatim>\<open>survey_answers.response_id\<close> cascades in turn);
  \<^verbatim>\<open>kudos.sprint_id\<close> names no action, so a kudos row that references the sprint refuses
  the delete. Referential actions run whatever the acting role may see. The update triggers
  of \<^verbatim>\<open>work_items\<close> run on the rows set to null and leave them as they are, the status
  being the same before and after. A delete that reaches no row is not an error.
\<close>

definition delete_sprint :: "db \<Rightarrow> actor \<Rightarrow> uuid \<Rightarrow> pg_error + db" where
  "delete_sprint d a i =
     (let tgt = (\<lambda>r. sprint_id r = i \<and> may_delete sprints_policies d a r)
      in if filter tgt (sprints d) = [] then Inr d
         else if \<exists>k \<in> set (kudos_rows d). kudos_sprint_id k = Some i
         then Inl (foreign_key_restrict ''sprints'' ''kudos_sprint_id_fkey'' ''kudos'')
         else
           (let gone = filter (\<lambda>r. sr_sprint_id r = Some i) (survey_responses d)
            in Inr (d\<lparr>sprints := filter (\<lambda>r. \<not> tgt r) (sprints d),
                     work_items :=
                       map (\<lambda>w. if wi_sprint_id w = Some i then w\<lparr>wi_sprint_id := None\<rparr> else w)
                         (work_items d),
                     survey_responses :=
                       filter (\<lambda>r. sr_sprint_id r \<noteq> Some i) (survey_responses d),
                     survey_answers :=
                       filter (\<lambda>x. \<not> (\<exists>r \<in> set gone. sa_response_id x = Some (sr_id r)))
                         (survey_answers d),
                     sprint_commitments :=
                       filter (\<lambda>c. sc_sprint_id c \<noteq> i) (sprint_commitments d),
                     sprint_snapshots :=
                       filter (\<lambda>c. ss_sprint_id c \<noteq> i) (sprint_snapshots d)\<rparr>)))"

text \<open>\<^verbatim>\<open>DELETE /sprints/:id\<close>.\<close>

definition delete_sprint_route :: "db \<Rightarrow> actor \<Rightarrow> uuid \<Rightarrow> db \<times> response" where
  "delete_sprint_route d a i =
     (case delete_sprint d a i of
        Inl e \<Rightarrow>
          if code e = ''23503''
          then (d, 409, error_body
                  ''Cannot delete sprint: it still has associated work items. Remove them first.'')
          else (d, 500, error_body (message e))
      | Inr d' \<Rightarrow> (d', 200, message_body ''Sprint deleted''))"

subsection \<open>Work items\<close>

text \<open>
  The trigger function \<^verbatim>\<open>handle_work_item_completion\<close>, run \<^verbatim>\<open>before update\<close> on
  \<^verbatim>\<open>work_items\<close> (the table has no insert trigger) with the stored row as \<open>old\<close>, the row
  the statement wrote as \<open>new\<close>, and the time of the transaction.
\<close>

definition handle_work_item_completion :: "timestamptz \<Rightarrow> work_item \<Rightarrow> work_item \<Rightarrow> work_item" where
  "handle_work_item_completion now old new =
     (if wi_status new = ''done'' \<and> wi_status old \<noteq> ''done''
      then new\<lparr>wi_completed_at := Some now\<rparr>
      else if wi_status new \<noteq> ''done'' \<and> wi_status old = ''done''
      then new\<lparr>wi_completed_at := None\<rparr>
      else new)"

definition work_items_status_check :: "work_item \<Rightarrow> bool" where
  "work_items_status_check r = (wi_status r \<in> {''todo'', ''in_progress'', ''review'', ''done''})"

text \<open>
  An update of a work item, sent to the store by a client (no route wraps it): the columns
  a request may name here are the title, the status and \<^verbatim>\<open>completed_at\<close> itself.
\<close>

record work_item_patch =
  wp_title :: "string option"
  wp_status :: "string option"
  wp_completed_at :: "timestamptz option option"

definition apply_work_item_patch :: "work_item_patch \<Rightarrow> work_item \<Rightarrow> work_item" where
  "apply_work_item_patch p r =
     r\<lparr>wi_title := (case wp_title p of None \<Rightarrow> wi_title r | Some v \<Rightarrow> v),
       wi_status := (case wp_status p of None \<Rightarrow> wi_status r | Some v \<Rightarrow> v),
       wi_completed_at := (case wp_completed_at p of None \<Rightarrow> wi_completed_at r | Some v \<Rightarrow> v)\<rparr>"

text \<open>What one update stores for one row: the written columns, then the trigger.\<close>

definition work_item_stored :: "timestamptz \<Rightarrow> work_item_patch \<Rightarrow> work_item \<Rightarrow> work_item" where
  "work_item_stored now p old = handle_work_item_completion now old (apply_work_item_patch p old)"

definition update_work_item_row ::
  "db \<Rightarrow> actor \<Rightarrow> timestamptz \<Rightarrow> work_item_patch \<Rightarrow> work_item \<Rightarrow> pg_error + work_item" where
  "update_work_item_row d a now p r =
     (let n = work_item_stored now p r
      in if \<not> may_update_to work_items_policies d a n
         then Inl (insufficient_privilege ''work_items'')
         else if \<not> work_items_status_check n
         then Inl (check_violation ''work_items'' ''work_items_status_check'')
         else Inr n)"

definition update_work_item ::
  "db \<Rightarrow> actor \<Rightarrow> timestamptz \<Rightarrow> uuid \<Rightarrow> work_item_patch \<Rightarrow> pg_error + db" where
  "update_work_item d a now i p =
     (case update_rows (\<lambda>r. wi_id r = i \<and> may_update_from work_items_policies d a r)
             (update_work_item_row d a now p) (work_items d) of
        Inl e \<Rightarrow> Inl e
      | Inr rs \<Rightarrow> Inr (d\<lparr>work_items := rs\<rparr>))"

text \<open>A sequence of updates of one row, each at its own time.\<close>

fun work_item_history :: "(timestamptz \<times> work_item_patch) list \<Rightarrow> work_item \<Rightarrow> work_item" where
  "work_item_history [] r = r"
| "work_item_history ((now, p) # us) r = work_item_history us (work_item_stored now p r)"

text \<open>The property the column is meant to have.\<close>

definition completion_consistent :: "work_item \<Rightarrow> bool" where
  "completion_consistent r = ((wi_completed_at r \<noteq> None) = (wi_status r = ''done''))"

subsection \<open>Accounts\<close>

text \<open>
  \<^verbatim>\<open>update accounts set ... where id = $1\<close> under "Update own accounts": the stored row
  must pass \<^verbatim>\<open>using\<close>, the written row the check, whose sub-select may raise.
\<close>

record account_patch =
  ap_name :: "string option"
  ap_is_test_tenant :: "bool option option"

definition apply_account_patch :: "account_patch \<Rightarrow> account \<Rightarrow> account" where
  "apply_account_patch p r =
     r\<lparr>acc_name := (case ap_name p of None \<Rightarrow> acc_name r | Some v \<Rightarrow> v),
       acc_is_test_tenant :=
         (case ap_is_test_tenant p of None \<Rightarrow> acc_is_test_tenant r | Some v \<Rightarrow> v)\<rparr>"

definition update_account_row :: "db \<Rightarrow> actor \<Rightarrow> account_patch \<Rightarrow> account \<Rightarrow> pg_error + account" where
  "update_account_row d a p r =
     (let n = apply_account_patch p r
      in case update_own_accounts_check d a n of
           Inl e \<Rightarrow> Inl e
         | Inr ok \<Rightarrow>
             if ok \<and> may_update_to accounts_policies d a n then Inr n
             else Inl (insufficient_privilege ''accounts''))"

definition update_account :: "db \<Rightarrow> actor \<Rightarrow> uuid \<Rightarrow> account_patch \<Rightarrow> pg_error + db" where
  "update_account d a i p =
     (case update_rows (\<lambda>r. acc_id r = i \<and> may_update_from accounts_policies d a r)
             (update_account_row d a p) (accounts d) of
        Inl e \<Rightarrow> Inl e
      | Inr rs \<Rightarrow> Inr (d\<lparr>accounts := rs\<rparr>))"

subsection \<open>Teams\<close>

text \<open>
  \<^verbatim>\<open>insert into teams ... returning *\<close> and \<^verbatim>\<open>insert into team_members\<close> as the acting
  role. \<^verbatim>\<open>team_members\<close> has row-level security enabled and a select policy only.
\<close>

definition insert_team :: "db \<Rightarrow> actor \<Rightarrow> team \<Rightarrow> pg_error + db" where
  "insert_team d a r =
     (if \<not> (may_insert teams_policies d a r \<and> may_read teams_policies d a r)
      then Inl (insufficient_privilege ''teams'')
      else if team_id r \<in> team_id ` set (teams d) then Inl (unique_violation ''teams_pkey'')
      else if team_account_id r \<notin> acc_id ` set (accounts d)
      then Inl (foreign_key_violation ''teams'' ''teams_account_id_fkey'')
      else Inr (d\<lparr>teams := teams d @ [r]\<rparr>))"

definition team_members_role_check :: "team_member \<Rightarrow> bool" where
  "team_members_role_check r = (tm_role r \<in> {''lead'', ''contributor'', ''stakeholder''})"

definition insert_team_member :: "db \<Rightarrow> actor \<Rightarrow> team_member \<Rightarrow> pg_error + db" where
  "insert_team_member d a r =
     (if \<not> may_insert team_members_policies d a r
      then Inl (insufficient_privilege ''team_members'')
      else if \<not> team_members_role_check r
      then Inl (check_violation ''team_members'' ''team_members_role_check'')
      else if \<exists>m \<in> set (team_members d). tm_team_id m = tm_team_id r \<and> tm_user_id m = tm_user_id r
      then Inl (unique_violation ''team_members_pkey'')
      else if tm_team_id r \<notin> team_id ` set (teams d)
      then Inl (foreign_key_violation ''team_members'' ''team_members_team_id_fkey'')
      else Inr (d\<lparr>team_members := team_members d @ [r]\<rparr>))"

text \<open>The body of \<^verbatim>\<open>POST /teams\<close> once parsed, and \<^verbatim>\<open>CreateTeamSchema\<close>.\<close>

record create_team_body =
  ctb_account_id :: uuid
  ctb_name :: string

definition CreateTeamSchema :: "create_team_body \<Rightarrow> bool" where
  "CreateTeamSchema b = (ctb_name b \<noteq> [])"

text \<open>
  \<^verbatim>\<open>POST /teams\<close>: validate, ask who the user is, insert the team, insert the user as its
  lead. When the second insert fails the handler returns at once, with the team in the body.
\<close>

definition post_team :: "db \<Rightarrow> actor \<Rightarrow> uuid \<Rightarrow> create_team_body \<Rightarrow> db \<times> response" where
  "post_team d a new_id b =
     (if \<not> CreateTeamSchema b then (d, 400, validation_body)
      else (case a of
              None \<Rightarrow> (d, 401, error_body ''Unauthorized'')
            | Some uid \<Rightarrow>
                (let t = \<lparr>team_id = new_id, team_account_id = ctb_account_id b,
                          team_name = ctb_name b, team_deleted_at = None\<rparr>
                 in case insert_team d a t of
                      Inl e \<Rightarrow> (d, 500, error_body (message e))
                    | Inr d1 \<Rightarrow>
                        (case insert_team_member d1 a
                                \<lparr>tm_team_id = team_id t, tm_user_id = uid, tm_role = ''lead''\<rparr> of
                           Inl e \<Rightarrow>
                             (d1, 500,
                              team_partial_body ''Team created but failed to assign lead role.'' e t)
                         | Inr d2 \<Rightarrow> (d2, 201, team_body t)))))"

subsection \<open>Surveys and their questions\<close>

text \<open>The check constraint on \<^verbatim>\<open>survey_questions.response_type\<close>, and the range of \<^verbatim>\<open>int\<close>.\<close>

definition survey_questions_response_type_check :: "survey_question \<Rightarrow> bool" where
  "survey_questions_response_type_check r =
     (sq_response_type r \<in> {''scale_1_5'', ''text'', ''single_select'', ''emoji_mood''})"

definition int4 :: "int \<Rightarrow> bool" where
  "int4 i = (- 2147483648 \<le> i \<and> i \<le> 2147483647)"

text \<open>The columns both creation paths name when they insert the survey.\<close>

definition survey_insert_columns :: "string list" where
  "survey_insert_columns = [''account_id'', ''team_id'', ''title'', ''is_active'']"

text \<open>
  The constraints, whoever inserts. On one new survey: primary key, then foreign keys. On
  one new question row: check constraint, then primary key; the foreign key of the question
  rows is checked when the statement has written all its rows.
\<close>

definition survey_constraints :: "db \<Rightarrow> survey \<Rightarrow> pg_error option" where
  "survey_constraints d r =
     (if survey_id r \<in> survey_id ` set (surveys d) then Some (unique_violation ''surveys_pkey'')
      else if (case survey_team_id r of None \<Rightarrow> False | Some t \<Rightarrow> t \<notin> team_id ` set (teams d))
      then Some (foreign_key_violation ''surveys'' ''surveys_team_id_fkey'')
      else if survey_account_id r \<notin> acc_id ` set (accounts d)
      then Some (foreign_key_violation ''surveys'' ''surveys_account_id_fkey'')
      else None)"

definition question_constraints :: "db \<Rightarrow> survey_question \<Rightarrow> pg_error option" where
  "question_constraints d r =
     (if \<not> survey_questions_response_type_check r
      then Some (check_violation ''survey_questions'' ''survey_questions_response_type_check'')
      else if sq_id r \<in> sq_id ` set (survey_questions d)
      then Some (unique_violation ''survey_questions_pkey'')
      else None)"

definition questions_survey_id_fkey :: "db \<Rightarrow> survey_question list \<Rightarrow> pg_error option" where
  "questions_survey_id_fkey d rs =
     (if \<exists>r \<in> set rs.
           (case sq_survey_id r of None \<Rightarrow> False | Some s \<Rightarrow> s \<notin> survey_id ` set (surveys d))
      then Some (foreign_key_violation ''survey_questions'' ''survey_questions_survey_id_fkey'')
      else None)"

text \<open>
  One \<^verbatim>\<open>insert\<close> of several question rows: row by row, each first against \<open>pre\<close> (what
  the acting role may write, decided on the store as the statement found it), then against
  the constraints. The first failure fails the whole statement.
\<close>

fun insert_question_rows ::
  "(survey_question \<Rightarrow> pg_error option) \<Rightarrow> db \<Rightarrow> survey_question list \<Rightarrow> pg_error + db" where
  "insert_question_rows pre d [] = Inr d"
| "insert_question_rows pre d (r # rs) =
     (case pre r of
        Some e \<Rightarrow> Inl e
      | None \<Rightarrow>
          (case question_constraints d r of
             Some e \<Rightarrow> Inl e
           | None \<Rightarrow> insert_question_rows pre (d\<lparr>survey_questions := survey_questions d @ [r]\<rparr>) rs))"

text \<open>
  Through the API as the acting role: \<^verbatim>\<open>insert into surveys ... returning *\<close>,
  \<^verbatim>\<open>insert into survey_questions ... returning *\<close> (the API turns the JSON array into rows
  before it inserts any, so a number outside \<^verbatim>\<open>int\<close> fails first), and
  \<^verbatim>\<open>delete from surveys where id = $1\<close>, whose foreign keys all cascade.
\<close>

definition insert_survey :: "db \<Rightarrow> actor \<Rightarrow> survey \<Rightarrow> pg_error + db" where
  "insert_survey d a r =
     (case find (\<lambda>c. c \<notin> set (surveys_columns d)) survey_insert_columns of
        Some c \<Rightarrow> Inl (PGRST204 ''surveys'' c)
      | None \<Rightarrow>
          if \<not> (may_insert surveys_policies d a r \<and> may_read surveys_policies d a r)
          then Inl (insufficient_privilege ''surveys'')
          else (case survey_constraints d r of
                  Some e \<Rightarrow> Inl e
                | None \<Rightarrow> Inr (d\<lparr>surveys := surveys d @ [r]\<rparr>)))"

definition insert_survey_questions :: "db \<Rightarrow> actor \<Rightarrow> survey_question list \<Rightarrow> pg_error + db" where
  "insert_survey_questions d a rs =
     (if \<exists>r \<in> set rs. \<not> int4 (sq_order_index r) then Inl numeric_value_out_of_range
      else (case insert_question_rows
                   (\<lambda>r. if may_insert survey_questions_policies d a r \<and>
                           may_read survey_questions_policies d a r
                        then None else Some (insufficient_privilege ''survey_questions''))
                   d rs of
              Inl e \<Rightarrow> Inl e
            | Inr d' \<Rightarrow>
                (case questions_survey_id_fkey d rs of Some e \<Rightarrow> Inl e | None \<Rightarrow> Inr d')))"

definition delete_survey :: "db \<Rightarrow> actor \<Rightarrow> uuid \<Rightarrow> pg_error + db" where
  "delete_survey d a i =
     (let tgt = (\<lambda>r. survey_id r = i \<and> may_delete surveys_policies d a r)
      in if filter tgt (surveys d) = [] then Inr d
         else
           (let qs = filter (\<lambda>q. sq_survey_id q = Some i) (survey_questions d);
                rs = filter (\<lambda>r. sr_survey_id r = Some i) (survey_responses d)
            in Inr (d\<lparr>surveys := filter (\<lambda>r. \<not> tgt r) (surveys d),
                     survey_questions :=
                       filter (\<lambda>q. sq_survey_id q \<noteq> Some i) (survey_questions d),
                     survey_responses :=
                       filter (\<lambda>r. sr_survey_id r \<noteq> Some i) (survey_responses d),
                     survey_answers :=
                       filter (\<lambda>x. \<not> (\<exists>q \<in> set qs. sa_question_id x = Some (sq_id q)) \<and>
                                   \<not> (\<exists>r \<in> set rs. sa_response_id x = Some (sr_id r)))
                         (survey_answers d)\<rparr>)))"

text \<open>
  The row the store makes of the four columns both paths name: a generated identifier, and
  the column default \<^verbatim>\<open>false\<close> for \<^verbatim>\<open>is_system_template\<close>.
\<close>

definition survey_row :: "uuid \<Rightarrow> uuid \<Rightarrow> uuid option \<Rightarrow> string \<Rightarrow> bool \<Rightarrow> survey" where
  "survey_row new_id account team title active =
     \<lparr>survey_id = new_id, survey_team_id = team, survey_title = title,
      survey_is_system_template = Some False, survey_account_id = account,
      survey_is_active = Some active\<rparr>"

text \<open>The body of \<^verbatim>\<open>POST /surveys\<close> once parsed, and \<^verbatim>\<open>CreateSurveySchema\<close>.\<close>

datatype QuestionType = qt_scale | qt_text | qt_boolean

fun QuestionTypeEnum :: "QuestionType \<Rightarrow> string" where
  "QuestionTypeEnum qt_scale = ''scale''"
| "QuestionTypeEnum qt_text = ''text''"
| "QuestionTypeEnum qt_boolean = ''boolean''"

record question_input =
  qi_question_text :: string
  qi_question_type :: QuestionType
  qi_order_index :: int
  qi_is_required :: bool

record create_survey_input =
  csi_account_id :: uuid
  csi_team_id :: "uuid option"
  csi_title :: string
  csi_is_active :: bool
  csi_questions :: "question_input list"

definition CreateSurveySchema :: "create_survey_input \<Rightarrow> bool" where
  "CreateSurveySchema i =
     (csi_title i \<noteq> [] \<and> list_all (\<lambda>q. qi_question_text q \<noteq> []) (csi_questions i))"

text \<open>
  Identifiers the store generates: \<open>gen 0\<close> for the survey, \<open>gen (Suc k)\<close> for the
  question at position \<open>k\<close>.
\<close>

definition questionsToInsert ::
  "(nat \<Rightarrow> uuid) \<Rightarrow> uuid \<Rightarrow> question_input list \<Rightarrow> survey_question list" where
  "questionsToInsert gen sid qs =
     map (\<lambda>(k, q). \<lparr>sq_id = gen (Suc k), sq_survey_id = Some sid,
                    sq_question_text = qi_question_text q,
                    sq_response_type = QuestionTypeEnum (qi_question_type q),
                    sq_order_index = qi_order_index q,
                    sq_is_required = Some (qi_is_required q)\<rparr>)
         (enumerate 0 qs)"

text \<open>The same rows for a list of questions whose first position is \<open>n\<close>.\<close>

definition question_rows_from ::
  "nat \<Rightarrow> (nat \<Rightarrow> uuid) \<Rightarrow> uuid \<Rightarrow> question_input list \<Rightarrow> survey_question list" where
  "question_rows_from n gen sid qs =
     map (\<lambda>(k, q). \<lparr>sq_id = gen (Suc k), sq_survey_id = Some sid,
                    sq_question_text = qi_question_text q,
                    sq_response_type = QuestionTypeEnum (qi_question_type q),
                    sq_order_index = qi_order_index q,
                    sq_is_required = Some (qi_is_required q)\<rparr>)
         (enumerate n qs)"

text \<open>
  \<^verbatim>\<open>POST /surveys\<close>, the two-step handler of \<^verbatim>\<open>surveys.ts\<close>: insert the survey, insert the
  questions, and when the questions fail delete the survey (whatever that delete answers)
  and report the questions' error.
\<close>

definition post_survey_two_step ::
  "db \<Rightarrow> actor \<Rightarrow> (nat \<Rightarrow> uuid) \<Rightarrow> create_survey_input \<Rightarrow> db \<times> response" where
  "post_survey_two_step d a gen i =
     (if \<not> CreateSurveySchema i then (d, 400, validation_body)
      else
        (let survey = survey_row (gen 0) (csi_account_id i) (csi_team_id i) (csi_title i)
                        (csi_is_active i)
         in case insert_survey d a survey of
              Inl surveyError \<Rightarrow> (d, 500, error_body (message surveyError))
            | Inr d1 \<Rightarrow>
                (let rows = questionsToInsert gen (survey_id survey) (csi_questions i)
                 in case insert_survey_questions d1 a rows of
                      Inl questionsError \<Rightarrow>
                        (persisted d1 (delete_survey d1 a (survey_id survey)),
                         500, error_body (message questionsError))
                    | Inr d2 \<Rightarrow> (d2, 201, survey_body survey rows))))"

text \<open>
  The procedure \<^verbatim>\<open>create_survey_with_questions\<close>, \<^verbatim>\<open>security definer\<close>: its statements
  read and write the tables as their owner, past the policies. \<open>p_questions\<close> is the JSON
  array as \<^verbatim>\<open>jsonb_to_recordset\<close> reads it: a key that is absent is null, and a number
  outside \<^verbatim>\<open>int\<close> fails the conversion. The question rows reference the survey the
  procedure has just inserted, so their foreign key holds. A raised error undoes the whole
  call.
\<close>

record question_json =
  qj_question_text :: "string option"
  qj_question_type :: "string option"
  qj_order_index :: "int option"
  qj_is_required :: "bool option"

definition question_record :: "uuid \<Rightarrow> uuid \<Rightarrow> question_json \<Rightarrow> pg_error + survey_question" where
  "question_record sid qid x =
     (case qj_question_text x of
        None \<Rightarrow> Inl (not_null_violation ''survey_questions'' ''question_text'')
      | Some txt \<Rightarrow>
          (case qj_question_type x of
             None \<Rightarrow> Inl (not_null_violation ''survey_questions'' ''response_type'')
           | Some ty \<Rightarrow>
               (case qj_order_index x of
                  None \<Rightarrow> Inl (not_null_violation ''survey_questions'' ''order_index'')
                | Some oi \<Rightarrow>
                    Inr \<lparr>sq_id = qid, sq_survey_id = Some sid, sq_question_text = txt,
                         sq_response_type = ty, sq_order_index = oi,
                         sq_is_required =
                           Some (case qj_is_required x of None \<Rightarrow> True | Some b \<Rightarrow> b)\<rparr>)))"

fun insert_question_records ::
  "db \<Rightarrow> uuid \<Rightarrow> (nat \<times> question_json) list \<Rightarrow> (nat \<Rightarrow> uuid) \<Rightarrow> pg_error + db" where
  "insert_question_records d sid [] gen = Inr d"
| "insert_question_records d sid ((k, x) # xs) gen =
     (case question_record sid (gen (Suc k)) x of
        Inl e \<Rightarrow> Inl e
      | Inr r \<Rightarrow>
          (case question_constraints d r of
             Some e \<Rightarrow> Inl e
           | None \<Rightarrow>
               insert_question_records (d\<lparr>survey_questions := survey_questions d @ [r]\<rparr>)
                 sid xs gen))"

definition create_survey_with_questions ::
  "db \<Rightarrow> actor \<Rightarrow> (nat \<Rightarrow> uuid) \<Rightarrow> uuid \<Rightarrow> uuid option \<Rightarrow> string \<Rightarrow> bool \<Rightarrow> question_json list
     \<Rightarrow> pg_error + db \<times> body" where
  "create_survey_with_questions d a gen p_account_id p_team_id p_title p_is_active p_questions =
     (if \<not> (\<exists>am \<in> set (account_members d).
               am_account_id am = p_account_id \<and> a = Some (am_user_id am))
      then Inl (raise_exception ''Access Denied: User is not a member of this account'')
      else
        (case find (\<lambda>c. c \<notin> set (surveys_columns d)) survey_insert_columns of
           Some c \<Rightarrow> Inl (undefined_column ''surveys'' c)
         | None \<Rightarrow>
             (let v_survey_id = gen 0;
                  survey = survey_row v_survey_id p_account_id p_team_id p_title p_is_active
              in case survey_constraints d survey of
                   Some e \<Rightarrow> Inl e
                 | None \<Rightarrow>
                     if \<exists>x \<in> set p_questions.
                          (case qj_order_index x of None \<Rightarrow> False | Some oi \<Rightarrow> \<not> int4 oi)
                     then Inl numeric_value_out_of_range
                     else
                       (case insert_question_records (d\<lparr>surveys := surveys d @ [survey]\<rparr>)
                               v_survey_id (enumerate 0 p_questions) gen of
                          Inl e \<Rightarrow> Inl e
                        | Inr d' \<Rightarrow>
                            Inr (d', rpc_body v_survey_id p_account_id p_title
                                       (sort_key sq_order_index
                                          (filter (\<lambda>q. sq_survey_id q = Some v_survey_id)
                                             (survey_questions d'))))))))"

text \<open>\<^verbatim>\<open>error.message.includes('Access Denied')\<close>.\<close>

fun starts_with :: "string \<Rightarrow> string \<Rightarrow> bool" where
  "starts_with s [] = True"
| "starts_with [] (c # cs) = False"
| "starts_with (x # xs) (c # cs) = (x = c \<and> starts_with xs cs)"

fun includes_str :: "string \<Rightarrow> string \<Rightarrow> bool" where
  "includes_str [] p = (p = [])"
| "includes_str (x # xs) p = (starts_with (x # xs) p \<or> includes_str xs p)"

text \<open>
  \<^verbatim>\<open>POST /surveys\<close>, the handler of \<^verbatim>\<open>surveys.ts\<close> that calls the procedure, with
  \<^verbatim>\<open>input.questions\<close> sent as the JSON array it is.
\<close>

definition question_json_of :: "question_input \<Rightarrow> question_json" where
  "question_json_of q =
     \<lparr>qj_question_text = Some (qi_question_text q),
      qj_question_type = Some (QuestionTypeEnum (qi_question_type q)),
      qj_order_index = Some (qi_order_index q),
      qj_is_required = Some (qi_is_required q)\<rparr>"


definition post_survey_rpc ::
  "db \<Rightarrow> actor \<Rightarrow> (nat \<Rightarrow> uuid) \<Rightarrow> create_survey_input \<Rightarrow> db \<times> response" where
  "post_survey_rpc d a gen i =
     (if \<not> CreateSurveySchema i then (d, 400, validation_body)
      else
        (case create_survey_with_questions d a gen (csi_account_id i) (csi_team_id i)
                (csi_title i) (csi_is_active i)
                (map question_json_of (csi_questions i)) of
           Inl e \<Rightarrow>
             if includes_str (message e) ''Access Denied'' then (d, 403, error_body (message e))
             else (d, 500, error_body (message e))
         | Inr (d', data) \<Rightarrow> (d', 201, data)))"

subsection \<open>A store to run the definitions on\<close>

text \<open>
  Two accounts. User 10 owns account 1, belongs to account 2 as well and leads team 5;
  user 11 is a member of account 1 and a contributor of team 5; user 12 belongs to nothing.
  Sprint 20 of team 5 has work item 40; survey 30 is a system template of account 1.
  \<open>example_store\<close> has \<^verbatim>\<open>surveys\<close> as \<^verbatim>\<open>init_db.sql\<close> declares it;
  \<open>example_store_active\<close> is the same store with an \<^verbatim>\<open>is_active\<close> column added, which
  none of the migrations declares: it serves to run the paths past the survey insert.
\<close>

definition example_store :: db where
  "example_store =
     \<lparr>accounts =
        [\<lparr>acc_id = 1, acc_name = ''Acme'', acc_slug = ''acme'',
          acc_is_test_tenant = Some False, acc_owner_user_id = 10\<rparr>,
         \<lparr>acc_id = 2, acc_name = ''Beta'', acc_slug = ''beta'',
          acc_is_test_tenant = Some False, acc_owner_user_id = 10\<rparr>],
      account_members =
        [\<lparr>am_account_id = 1, am_user_id = 10, am_role = ''owner''\<rparr>,
         \<lparr>am_account_id = 2, am_user_id = 10, am_role = ''member''\<rparr>,
         \<lparr>am_account_id = 1, am_user_id = 11, am_role = ''member''\<rparr>],
      teams =
        [\<lparr>team_id = 5, team_account_id = 1, team_name = ''Core'', team_deleted_at = None\<rparr>],
      team_members =
        [\<lparr>tm_team_id = 5, tm_user_id = 10, tm_role = ''lead''\<rparr>,
         \<lparr>tm_team_id = 5, tm_user_id = 11, tm_role = ''contributor''\<rparr>],
      sprints =
        [\<lparr>sprint_id = 20, sprint_team_id = 5, sprint_account_id = 1,
          sprint_name = ''S1'', sprint_goal = None,
          sprint_start_date = (2026, 1, 1), sprint_end_date = (2026, 1, 14),
          sprint_status = ''planned''\<rparr>],
      surveys =
        [\<lparr>survey_id = 30, survey_team_id = None, survey_title = ''Pulse'',
          survey_is_system_template = Some True, survey_account_id = 1,
          survey_is_active = None\<rparr>],
      surveys_columns = init_db_surveys_columns,
      survey_questions = [],
      survey_responses = [],
      survey_answers = [],
      kudos_rows = [],
      work_items =
        [\<lparr>wi_id = 40, wi_team_id = 5, wi_account_id = 1, wi_sprint_id = Some 20,
          wi_title = ''Ship it'', wi_story_points = 3, wi_status = ''todo'',
          wi_type = ''story'', wi_provider = ''native'', wi_completed_at = None\<rparr>],
      sprint_commitments = [],
      sprint_snapshots = []\<rparr>"

definition example_store_active :: db where
  "example_store_active =
     example_store\<lparr>surveys_columns := init_db_surveys_columns @ [''is_active'']\<rparr>"

definition example_sprint :: sprint where
  "example_sprint =
     \<lparr>sprint_id = 20, sprint_team_id = 5, sprint_account_id = 1,
      sprint_name = ''S1'', sprint_goal = None,
      sprint_start_date = (2026, 1, 1), sprint_end_date = (2026, 1, 14),
      sprint_status = ''planned''\<rparr>"

definition example_work_item :: work_item where
  "example_work_item =
     \<lparr>wi_id = 40, wi_team_id = 5, wi_account_id = 1, wi_sprint_id = Some 20,
      wi_title = ''Ship it'', wi_story_points = 3, wi_status = ''todo'',
      wi_type = ''story'', wi_provider = ''native'', wi_completed_at = None\<rparr>"

definition example_end_only :: update_sprint_body where
  "example_end_only =
     \<lparr>usb_name = None, usb_start_date = None, usb_end_date = Some ''2025-12-31'',
      usb_goal = None, usb_status = None\<rparr>"

definition example_rename :: account_patch where
  "example_rename = \<lparr>ap_name = Some ''Acme Inc'', ap_is_test_tenant = None\<rparr>"

definition example_team_body :: create_team_body where
  "example_team_body = \<lparr>ctb_account_id = 1, ctb_name = ''Platform''\<rparr>"

definition example_gen :: "nat \<Rightarrow> uuid" where
  "example_gen k = 100 + k"

definition example_text_survey :: create_survey_input where
  "example_text_survey =
     \<lparr>csi_account_id = 1, csi_team_id = Some 5, csi_title = ''Retro'', csi_is_active = True,
      csi_questions =
        [\<lparr>qi_question_text = ''What went well?'', qi_question_type = qt_text,
          qi_order_index = 0, qi_is_required = True\<rparr>]\<rparr>"

definition example_scale_survey :: create_survey_input where
  "example_scale_survey =
     \<lparr>csi_account_id = 1, csi_team_id = Some 5, csi_title = ''Mood'', csi_is_active = True,
      csi_questions =
        [\<lparr>qi_question_text = ''How was the sprint?'', qi_question_type = qt_text,
          qi_order_index = 0, qi_is_required = True\<rparr>,
         \<lparr>qi_question_text = ''Rate your week'', qi_question_type = qt_scale,
          qi_order_index = 1, qi_is_required = True\<rparr>]\<rparr>"

definition example_template :: survey where
  "example_template =
     \<lparr>survey_id = 30, survey_team_id = None, survey_title = ''Pulse'',
      survey_is_system_template = Some True, survey_account_id = 1,
      survey_is_active = None\<rparr>"

text \<open>
  \<open>example_store_kudos\<close>: the example store without its work item and with one kudos row
  that names sprint 20.
\<close>

definition example_store_kudos :: db where
  "example_store_kudos =
     example_store\<lparr>work_items := [],
       kudos_rows :=
         [\<lparr>kudos_id = 50, kudos_team_id = Some 5, kudos_sender_user_id = Some 10,
           kudos_receiver_user_id = Some 11, kudos_sprint_id = Some 20,
           kudos_account_id = 1, kudos_message = ''Thanks''\<rparr>]\<rparr>"

section \<open>Properties\<close>

subsection \<open>Tenant isolation\<close>

lemma sprints_using_iff:
  "rls_using sprints_policies d a c r = is_account_member d a (sprint_account_id r)"
  by (auto simp: rls_using_def sprints_policies_def applicable_def using_expr_def)

lemma sprints_check_iff:
  "rls_with_check sprints_policies d a c r = is_account_member d a (sprint_account_id r)"
  by (auto simp: rls_with_check_def sprints_policies_def applicable_def with_check_expr_def)

lemma work_items_using_iff:
  "rls_using work_items_policies d a c r = is_account_member d a (wi_account_id r)"
  by (auto simp: rls_using_def work_items_policies_def applicable_def using_expr_def)

lemma work_items_check_iff:
  "rls_with_check work_items_policies d a c r = is_account_member d a (wi_account_id r)"
  by (auto simp: rls_with_check_def work_items_policies_def applicable_def with_check_expr_def)

lemma teams_read_needs_member:
  "rls_using teams_policies d a SELECT r \<Longrightarrow> is_account_member d a (team_account_id r)"
  by (auto simp: rls_using_def teams_policies_def applicable_def using_expr_def)

lemma teams_insert_needs_member:
  "rls_with_check teams_policies d a INSERT r \<Longrightarrow> is_account_member d a (team_account_id r)"
  by (auto simp: rls_with_check_def teams_policies_def applicable_def with_check_expr_def
        using_expr_def visible_account_members_def is_account_member_def)

lemma teams_no_update_delete:
  "\<not> rls_using teams_policies d a UPDATE r" "\<not> rls_using teams_policies d a DELETE r"
  "\<not> rls_with_check teams_policies d a UPDATE r"
  by (auto simp: rls_using_def rls_with_check_def teams_policies_def applicable_def)

text \<open>
  C1, as amended. An actor who holds no membership of an account is refused every command
  (select, insert, update, delete) on a sprint, a work item or a team of that account: the
  stored row does not pass the policies, and neither does a row written into the account.
  The policies of \<^verbatim>\<open>surveys\<close> do not ask for account membership; see the counterexample.
\<close>

theorem tenant_isolation_sprints_work_items_teams:
  assumes "\<not> is_account_member d a acct"
  shows "(sprint_account_id s = acct \<longrightarrow>
            \<not> permitted sprints_policies d a c s \<and> \<not> may_update_to sprints_policies d a s)
       \<and> (wi_account_id w = acct \<longrightarrow>
            \<not> permitted work_items_policies d a c w \<and> \<not> may_update_to work_items_policies d a w)
       \<and> (team_account_id t = acct \<longrightarrow>
            \<not> permitted teams_policies d a c t \<and> \<not> may_update_to teams_policies d a t)"
proof -
  have "\<not> permitted sprints_policies d a c s \<and> \<not> may_update_to sprints_policies d a s"
    if "sprint_account_id s = acct"
    using assms that
    by (cases c)
       (simp_all add: may_read_def may_insert_def may_update_from_def may_update_to_def
          may_delete_def sprints_using_iff sprints_check_iff)
  moreover
  have "\<not> permitted work_items_policies d a c w \<and> \<not> may_update_to work_items_policies d a w"
    if "wi_account_id w = acct"
    using assms that
    by (cases c)
       (simp_all add: may_read_def may_insert_def may_update_from_def may_update_to_def
          may_delete_def work_items_using_iff work_items_check_iff)
  moreover
  have "\<not> permitted teams_policies d a c t \<and> \<not> may_update_to teams_policies d a t"
    if "team_account_id t = acct"
    using assms that teams_read_needs_member [of d a t] teams_insert_needs_member [of d a t]
    by (cases c)
       (auto simp: may_read_def may_insert_def may_update_from_def may_update_to_def
          may_delete_def teams_no_update_delete)
  ultimately show ?thesis by blast
qed

text \<open>User 12, who belongs to no account, may not delete sprint 20 or work item 40.\<close>

theorem tenant_isolation_witness:
  "\<not> is_account_member example_store (Some 12) 1
   \<and> \<not> permitted sprints_policies example_store (Some 12) DELETE example_sprint
   \<and> \<not> permitted work_items_policies example_store (Some 12) DELETE example_work_item"
proof -
  have out: "\<not> is_account_member example_store (Some 12) 1"
    by (simp add: is_account_member_def example_store_def)
  show ?thesis
    using out tenant_isolation_sprints_work_items_teams
            [OF out, of example_sprint DELETE example_work_item]
    by (simp add: example_sprint_def example_work_item_def)
qed

text \<open>
  C1 as stated fails: survey 30 belongs to account 1, user 12 is no member of account 1,
  and "View surveys" lets user 12 read it, since it is a system template.
\<close>

theorem system_template_read_by_non_member:
  "survey_account_id example_template = 1
   \<and> example_template \<in> set (surveys example_store)
   \<and> \<not> is_account_member example_store (Some 12) 1
   \<and> permitted surveys_policies example_store (Some 12) SELECT example_template"
  by (simp add: example_template_def example_store_def is_account_member_def
        may_read_def rls_using_def surveys_policies_def applicable_def using_expr_def
        auth_role_def)

subsection \<open>The completion stamp of work items\<close>

lemma work_item_stored_consistent:
  "completion_consistent old \<Longrightarrow> wp_completed_at p = None \<Longrightarrow>
   completion_consistent (work_item_stored now p old)"
  by (auto simp: work_item_stored_def handle_work_item_completion_def
        apply_work_item_patch_def completion_consistent_def split: option.splits)

lemma work_item_history_consistent:
  "completion_consistent r \<Longrightarrow> list_all (\<lambda>u. wp_completed_at (snd u) = None) us \<Longrightarrow>
   completion_consistent (work_item_history us r)"
proof (induction us arbitrary: r)
  case Nil
  then show ?case by simp
next
  case (Cons u us)
  obtain now p where u: "u = (now, p)" by (cases u)
  from Cons.prems have "completion_consistent (work_item_stored now p r)"
    by (simp add: u work_item_stored_consistent)
  with Cons show ?case by (simp add: u)
qed

text \<open>
  C4, as amended. An update that moves the status to \<^verbatim>\<open>done\<close> from another status stores
  \<^verbatim>\<open>completed_at\<close> = now, and one that moves it away from \<^verbatim>\<open>done\<close> stores null, whatever
  value the caller supplied. Any other update (\<^verbatim>\<open>done\<close> to \<^verbatim>\<open>done\<close>, or between two
  statuses other than \<^verbatim>\<open>done\<close>) stores the \<^verbatim>\<open>completed_at\<close> the caller supplied, and
  the stored one when the caller supplied none. So a row on which \<^verbatim>\<open>completed_at\<close> is
  non-null exactly when the status is \<^verbatim>\<open>done\<close> keeps that property through every sequence
  of updates that do not supply \<^verbatim>\<open>completed_at\<close>.
\<close>

theorem work_item_completion_on_transitions:
  "(wi_status old \<noteq> ''done'' \<and> wp_status p = Some ''done'' \<longrightarrow>
      wi_completed_at (work_item_stored now p old) = Some now)
   \<and> (wi_status old = ''done'' \<and> wp_status p = Some s \<and> s \<noteq> ''done'' \<longrightarrow>
      wi_completed_at (work_item_stored now p old) = None)
   \<and> ((wi_status old = ''done'') = (wi_status (work_item_stored now p old) = ''done'') \<longrightarrow>
      wi_completed_at (work_item_stored now p old) =
        (case wp_completed_at p of None \<Rightarrow> wi_completed_at old | Some v \<Rightarrow> v))
   \<and> (completion_consistent old \<and> list_all (\<lambda>u. wp_completed_at (snd u) = None) us \<longrightarrow>
      completion_consistent (work_item_history us old))"
proof -
  have "completion_consistent (work_item_history us old)"
    if "completion_consistent old" "list_all (\<lambda>u. wp_completed_at (snd u) = None) us"
    using that by (rule work_item_history_consistent)
  moreover
  have "wi_completed_at (work_item_stored now p old) =
          (case wp_completed_at p of None \<Rightarrow> wi_completed_at old | Some v \<Rightarrow> v)"
    if "(wi_status old = ''done'') = (wi_status (work_item_stored now p old) = ''done'')"
    using that
    by (auto simp: work_item_stored_def handle_work_item_completion_def
          apply_work_item_patch_def split: option.splits if_splits)
  moreover
  have "wi_status old \<noteq> ''done'' \<and> wp_status p = Some ''done'' \<longrightarrow>
          wi_completed_at (work_item_stored now p old) = Some now"
    by (simp add: work_item_stored_def handle_work_item_completion_def apply_work_item_patch_def)
  moreover
  have "wi_status old = ''done'' \<and> wp_status p = Some s \<and> s \<noteq> ''done'' \<longrightarrow>
          wi_completed_at (work_item_stored now p old) = None"
    by (simp add: work_item_stored_def handle_work_item_completion_def apply_work_item_patch_def)
  ultimately show ?thesis by blast
qed

text \<open>
  Work item 40 goes from \<^verbatim>\<open>todo\<close> to \<^verbatim>\<open>done\<close> at time 7, with a caller's value 5 that is
  overridden, and back to \<^verbatim>\<open>review\<close> at time 9.
\<close>

theorem work_item_completion_witness:
  "wi_completed_at (work_item_stored 7
      \<lparr>wp_title = None, wp_status = Some ''done'', wp_completed_at = Some (Some 5)\<rparr>
      example_work_item) = Some 7
   \<and> completion_consistent (work_item_history
        [(7, \<lparr>wp_title = None, wp_status = Some ''done'', wp_completed_at = None\<rparr>),
         (9, \<lparr>wp_title = None, wp_status = Some ''review'', wp_completed_at = None\<rparr>)]
        example_work_item)"
proof -
  have c: "completion_consistent example_work_item"
    by (simp add: completion_consistent_def example_work_item_def)
  have s: "wi_status example_work_item \<noteq> ''done''"
    by (simp add: example_work_item_def)
  show ?thesis
    using c s
      work_item_completion_on_transitions
        [of example_work_item
            "\<lparr>wp_title = None, wp_status = Some ''done'', wp_completed_at = Some (Some 5)\<rparr>"
            7 "''x''"
            "[(7, \<lparr>wp_title = None, wp_status = Some ''done'', wp_completed_at = None\<rparr>),
              (9, \<lparr>wp_title = None, wp_status = Some ''review'', wp_completed_at = None\<rparr>)]"]
    by simp
qed

text \<open>
  C4 as stated fails: user 10 moves work item 40 from \<^verbatim>\<open>todo\<close> to \<^verbatim>\<open>in_progress\<close> and
  supplies \<^verbatim>\<open>completed_at\<close> = 5. The status changes, the supplied value is stored as it
  is, and the stored row has a \<^verbatim>\<open>completed_at\<close> while its status is not \<^verbatim>\<open>done\<close>.
\<close>

theorem caller_completed_at_kept:
  "completion_consistent example_work_item
   \<and> wi_status example_work_item = ''todo''
   \<and> update_work_item example_store (Some 10) 7 40
        \<lparr>wp_title = None, wp_status = Some ''in_progress'', wp_completed_at = Some (Some 5)\<rparr>
      = Inr (example_store\<lparr>work_items :=
               [example_work_item\<lparr>wi_status := ''in_progress'', wi_completed_at := Some 5\<rparr>]\<rparr>)
   \<and> \<not> completion_consistent
         (example_work_item\<lparr>wi_status := ''in_progress'', wi_completed_at := Some 5\<rparr>)"
  by (simp add: example_work_item_def example_store_def update_work_item_def
        update_work_item_row_def work_item_stored_def handle_work_item_completion_def
        apply_work_item_patch_def completion_consistent_def work_items_status_check_def
        may_update_from_def may_update_to_def work_items_using_iff work_items_check_iff
        is_account_member_def)

subsection \<open>Deleting a sprint\<close>

lemma delete_sprint_reaches:
  assumes "s \<in> set (sprints d)" "is_account_member d a (sprint_account_id s)"
  shows "filter (\<lambda>r. sprint_id r = sprint_id s \<and> may_delete sprints_policies d a r) (sprints d) \<noteq> []"
  using assms by (auto simp: filter_empty_conv may_delete_def sprints_using_iff)

text \<open>
  What the store does on the delete of a sprint that the actor reaches (the actor is a
  member of its account) and that no kudos row names: the sprint row is gone and every
  work item is still there, those that named the sprint with \<^verbatim>\<open>sprint_id\<close> set to
  null, the others as they were.
\<close>

lemma delete_sprint_clears_work_items:
  assumes "s \<in> set (sprints d)" and "is_account_member d a (sprint_account_id s)"
      and "\<forall>k \<in> set (kudos_rows d). kudos_sprint_id k \<noteq> Some (sprint_id s)"
  shows "snd (delete_sprint_route d a (sprint_id s)) = (200, message_body ''Sprint deleted'')
       \<and> s \<notin> set (sprints (fst (delete_sprint_route d a (sprint_id s))))
       \<and> map wi_id (work_items (fst (delete_sprint_route d a (sprint_id s))))
           = map wi_id (work_items d)
       \<and> (\<forall>w \<in> set (work_items (fst (delete_sprint_route d a (sprint_id s)))).
             wi_sprint_id w \<noteq> Some (sprint_id s))
       \<and> (\<forall>w \<in> set (work_items d).
             (if wi_sprint_id w = Some (sprint_id s) then w\<lparr>wi_sprint_id := None\<rparr> else w)
               \<in> set (work_items (fst (delete_sprint_route d a (sprint_id s)))))"
proof -
  let ?i = "sprint_id s"
  let ?tgt = "\<lambda>r. sprint_id r = ?i \<and> may_delete sprints_policies d a r"
  let ?f = "\<lambda>w. if wi_sprint_id w = Some ?i then w\<lparr>wi_sprint_id := None\<rparr> else w"
  have reach: "filter ?tgt (sprints d) \<noteq> []"
    using assms(1,2) by (rule delete_sprint_reaches)
  have nok: "\<not> (\<exists>k \<in> set (kudos_rows d). kudos_sprint_id k = Some ?i)"
    using assms(3) by blast
  obtain d' where del: "delete_sprint d a ?i = Inr d'"
    and sp: "sprints d' = filter (\<lambda>r. \<not> ?tgt r) (sprints d)"
    and wi: "work_items d' = map ?f (work_items d)"
    using reach nok by (simp add: delete_sprint_def Let_def)
  have route: "delete_sprint_route d a ?i = (d', 200, message_body ''Sprint deleted'')"
    by (simp add: delete_sprint_route_def del)
  have "?tgt s" using assms(2) by (simp add: may_delete_def sprints_using_iff)
  then have gone: "s \<notin> set (sprints d')" by (simp add: sp)
  have ids: "map wi_id (work_items d') = map wi_id (work_items d)"
    by (simp add: wi comp_def if_distrib)
  have none: "\<forall>w \<in> set (work_items d'). wi_sprint_id w \<noteq> Some ?i"
    by (auto simp: wi)
  have kept: "\<forall>w \<in> set (work_items d). ?f w \<in> set (work_items d')"
    by (simp add: wi)
  show ?thesis
    using gone ids none kept by (simp add: route)
qed

text \<open>
  C3: the code at the failing input. The handler of \<^verbatim>\<open>DELETE /sprints/:id\<close> expects the
  store to refuse the delete while work items name the sprint (its comment says so, and
  its 409 answer tells the caller to remove them). Work item 40 names sprint 20; user 10
  deletes sprint 20; the store, whose foreign key is \<^verbatim>\<open>on delete set null\<close>, deletes the
  sprint and the handler answers 200. The work item stays, with no sprint.
\<close>

theorem sprint_with_work_item_deleted:
  "example_work_item \<in> set (work_items example_store)
   \<and> wi_sprint_id example_work_item = Some 20
   \<and> delete_sprint_route example_store (Some 10) 20
      = (example_store\<lparr>sprints := [],
                       work_items := [example_work_item\<lparr>wi_sprint_id := None\<rparr>]\<rparr>,
         200, message_body ''Sprint deleted'')"
  by (simp add: example_store_def example_work_item_def delete_sprint_route_def
        delete_sprint_def Let_def may_delete_def sprints_using_iff is_account_member_def)

text \<open>
  The only reference that refuses the delete is the one of \<^verbatim>\<open>kudos\<close>: a sprint that no
  work item names, and one kudos row does, is answered with the 409 about work items.
\<close>

lemma sprint_with_kudos_refused:
  "work_items example_store_kudos = []
   \<and> delete_sprint_route example_store_kudos (Some 10) 20
      = (example_store_kudos, 409,
         error_body
           ''Cannot delete sprint: it still has associated work items. Remove them first.'')"
  by code_simp

subsection \<open>The order of a sprint's dates\<close>

lemma insert_sprint_ok:
  "insert_sprint d a r = Inr d' \<Longrightarrow> valid_dates r \<and> sprints d' = sprints d @ [r]"
  by (auto simp: insert_sprint_def split: if_splits)

lemma insert_sprint_rejects:
  "\<not> valid_dates r \<Longrightarrow> \<exists>e. insert_sprint d a r = Inl e"
  by (auto simp: insert_sprint_def)

lemma update_sprint_ok:
  assumes "update_sprint d a i p = Inr (d', n)"
  shows "valid_dates n \<and> set (sprints d') \<subseteq> insert n (set (sprints d)) \<and>
         (\<exists>r \<in> set (sprints d). sprint_id r = i \<and> n = apply_sprint_patch p r)"
proof -
  let ?tgt = "\<lambda>r. sprint_id r = i \<and> may_update_from sprints_policies d a r"
  from assms obtain r where f: "filter ?tgt (sprints d) = [r]"
    and row: "update_sprint_row d a p r = Inr n"
    and d': "d' = d\<lparr>sprints := map (\<lambda>x. if ?tgt x then n else x) (sprints d)\<rparr>"
    by (auto simp: update_sprint_def Let_def split: if_splits list.splits sum.splits)
  from row have v: "valid_dates n" and n: "n = apply_sprint_patch p r"
    by (auto simp: update_sprint_row_def Let_def split: if_splits)
  have "r \<in> set (filter ?tgt (sprints d))" by (simp add: f)
  then have r: "r \<in> set (sprints d)" "sprint_id r = i" by auto
  have "set (sprints d') \<subseteq> insert n (set (sprints d))" by (auto simp: d')
  with v n r show ?thesis by blast
qed

lemma apply_sprint_patch_dates:
  "valid_dates (apply_sprint_patch p r) =
     date_ge (case sp_end_date p of None \<Rightarrow> sprint_end_date r | Some e \<Rightarrow> e)
             (case sp_start_date p of None \<Rightarrow> sprint_start_date r | Some s \<Rightarrow> s)"
  by (simp add: valid_dates_def apply_sprint_patch_def)

lemma update_sprint_rejects:
  assumes "r \<in> set (sprints d)" "sprint_id r = i" "may_update_from sprints_policies d a r"
      and "\<not> valid_dates (apply_sprint_patch p r)"
  shows "\<exists>e. update_sprint d a i p = Inl e"
proof (cases "update_sprint d a i p")
  case (Inl e)
  then show ?thesis by blast
next
  case (Inr x)
  obtain d' n where x: "x = (d', n)" by (cases x)
  let ?tgt = "\<lambda>r. sprint_id r = i \<and> may_update_from sprints_policies d a r"
  from Inr x obtain r' where f: "filter ?tgt (sprints d) = [r']"
    and row: "update_sprint_row d a p r' = Inr n"
    by (auto simp: update_sprint_def Let_def split: if_splits list.splits sum.splits)
  have "r \<in> set (filter ?tgt (sprints d))" using assms by simp
  then have "r' = r" by (simp add: f)
  with row assms(4) show ?thesis
    by (auto simp: update_sprint_row_def Let_def split: if_splits)
qed

lemma post_sprint_cases:
  "(fst (snd (post_sprint d a nid b)) \<noteq> 201 \<and> fst (post_sprint d a nid b) = d)
   \<or> (\<exists>r. fst (snd (post_sprint d a nid b)) = 201 \<and> valid_dates r \<and>
          sprints (fst (post_sprint d a nid b)) = sprints d @ [r])"
  by (auto simp: post_sprint_def Let_def dest: insert_sprint_ok
        split: list.splits sum.splits)

lemma patch_sprint_cases:
  "(fst (snd (patch_sprint d a i u)) \<noteq> 200 \<and> fst (patch_sprint d a i u) = d)
   \<or> (\<exists>n. fst (snd (patch_sprint d a i u)) = 200 \<and> valid_dates n \<and>
          set (sprints (fst (patch_sprint d a i u))) \<subseteq> insert n (set (sprints d)))"
  by (auto simp: patch_sprint_def Let_def dest!: update_sprint_ok
        split: list.splits sum.splits)

text \<open>
  C5. In a store whose sprints all have \<^verbatim>\<open>end_date >= start_date\<close>, they all have it
  after \<^verbatim>\<open>POST /sprints\<close> and after \<^verbatim>\<open>PATCH /sprints/:id\<close>, whatever the request; a
  request that is not answered with success leaves the store as it was; an insert of a row
  that breaks the order is refused; an update succeeds only if the order holds between the
  values it supplies and, for a date it does not supply, the stored value of the row, and
  it is refused when that order is broken.
\<close>

theorem sprint_dates_ordered:
  assumes "\<forall>r \<in> set (sprints d). valid_dates r"
  shows "(\<forall>r \<in> set (sprints (fst (post_sprint d a new_id b))). valid_dates r)
       \<and> (fst (snd (post_sprint d a new_id b)) \<noteq> 201 \<longrightarrow> fst (post_sprint d a new_id b) = d)
       \<and> (\<forall>r \<in> set (sprints (fst (patch_sprint d a i u))). valid_dates r)
       \<and> (fst (snd (patch_sprint d a i u)) \<noteq> 200 \<longrightarrow> fst (patch_sprint d a i u) = d)
       \<and> (\<not> valid_dates new \<longrightarrow> (\<exists>e. insert_sprint d a new = Inl e))
       \<and> (\<forall>d' n. update_sprint d a i p = Inr (d', n) \<longrightarrow>
             (\<exists>r \<in> set (sprints d). sprint_id r = i \<and>
                date_ge (case sp_end_date p of None \<Rightarrow> sprint_end_date r | Some e \<Rightarrow> e)
                        (case sp_start_date p of None \<Rightarrow> sprint_start_date r | Some s \<Rightarrow> s)))
       \<and> (\<forall>r \<in> set (sprints d).
             sprint_id r = i \<and> may_update_from sprints_policies d a r \<and>
             \<not> date_ge (case sp_end_date p of None \<Rightarrow> sprint_end_date r | Some e \<Rightarrow> e)
                       (case sp_start_date p of None \<Rightarrow> sprint_start_date r | Some s \<Rightarrow> s)
             \<longrightarrow> (\<exists>e. update_sprint d a i p = Inl e))"
proof -
  have post: "\<forall>r \<in> set (sprints (fst (post_sprint d a new_id b))). valid_dates r"
    using assms post_sprint_cases [of d a new_id b] by auto
  have post_un: "fst (snd (post_sprint d a new_id b)) \<noteq> 201 \<longrightarrow> fst (post_sprint d a new_id b) = d"
    using post_sprint_cases [of d a new_id b] by auto
  have patch: "\<forall>r \<in> set (sprints (fst (patch_sprint d a i u))). valid_dates r"
    using assms patch_sprint_cases [of d a i u] by auto
  have patch_un: "fst (snd (patch_sprint d a i u)) \<noteq> 200 \<longrightarrow> fst (patch_sprint d a i u) = d"
    using patch_sprint_cases [of d a i u] by auto
  have ins: "\<not> valid_dates new \<longrightarrow> (\<exists>e. insert_sprint d a new = Inl e)"
    using insert_sprint_rejects by blast
  have upd: "\<forall>d' n. update_sprint d a i p = Inr (d', n) \<longrightarrow>
             (\<exists>r \<in> set (sprints d). sprint_id r = i \<and>
                date_ge (case sp_end_date p of None \<Rightarrow> sprint_end_date r | Some e \<Rightarrow> e)
                        (case sp_start_date p of None \<Rightarrow> sprint_start_date r | Some s \<Rightarrow> s))"
  proof (intro allI impI)
    fix d' n
    assume "update_sprint d a i p = Inr (d', n)"
    from update_sprint_ok [OF this]
    obtain r where "r \<in> set (sprints d)" "sprint_id r = i" "valid_dates (apply_sprint_patch p r)"
      by blast
    then show "\<exists>r \<in> set (sprints d). sprint_id r = i \<and>
                date_ge (case sp_end_date p of None \<Rightarrow> sprint_end_date r | Some e \<Rightarrow> e)
                        (case sp_start_date p of None \<Rightarrow> sprint_start_date r | Some s \<Rightarrow> s)"
      by (auto simp: apply_sprint_patch_dates)
  qed
  have rej: "\<forall>r \<in> set (sprints d).
             sprint_id r = i \<and> may_update_from sprints_policies d a r \<and>
             \<not> date_ge (case sp_end_date p of None \<Rightarrow> sprint_end_date r | Some e \<Rightarrow> e)
                       (case sp_start_date p of None \<Rightarrow> sprint_start_date r | Some s \<Rightarrow> s)
             \<longrightarrow> (\<exists>e. update_sprint d a i p = Inl e)"
    using update_sprint_rejects [of _ d i a p] by (simp add: apply_sprint_patch_dates)
  show ?thesis
    using post post_un patch patch_un ins upd rej by blast
qed

text \<open>
  User 10 sends only \<^verbatim>\<open>end_date\<close> = 2025-12-31 for sprint 20, which starts on
  2026-01-01: the request passes the schema, the store refuses it, the row stays.
\<close>

lemma example_patch_refused:
  "patch_sprint example_store (Some 10) 20 example_end_only
     = (example_store, 500, error_body (message (check_violation ''sprints'' ''valid_dates'')))"
  by code_simp

theorem sprint_dates_witness:
  "list_all valid_dates (sprints example_store)
   \<and> fst (snd (patch_sprint example_store (Some 10) 20 example_end_only)) = 500
   \<and> fst (patch_sprint example_store (Some 10) 20 example_end_only) = example_store"
proof -
  have inv: "\<forall>r \<in> set (sprints example_store). valid_dates r"
    by (simp add: example_store_def valid_dates_def date_ge_def)
  have st: "fst (snd (patch_sprint example_store (Some 10) 20 example_end_only)) = 500"
    by (simp add: example_patch_refused)
  show ?thesis
    using inv st
      sprint_dates_ordered [OF inv, of "Some 10" _ _ 20 example_end_only]
    by (simp add: list_all_iff)
qed

subsection \<open>The test-tenant flag of accounts\<close>

text \<open>What the policy does achieve: no update clears a flag that is set.\<close>

lemma update_rows_rel:
  "update_rows tgt f rs = Inr rs' \<Longrightarrow>
   list_all2 (\<lambda>r r'. (\<not> tgt r \<and> r' = r) \<or> (tgt r \<and> f r = Inr r')) rs rs'"
  by (induction rs arbitrary: rs') (auto split: if_splits sum.splits)

lemma visible_accounts_mem:
  "r \<in> set (accounts d) \<Longrightarrow> is_account_member d a (acc_id r) \<Longrightarrow> r \<in> set (visible_accounts d a)"
  by (simp add: visible_accounts_def may_read_def rls_using_def view_own_accounts_def
        applicable_def using_expr_def)

lemma update_account_row_flag:
  assumes "update_account_row d a p r = Inr n" "r \<in> set (accounts d)"
    "may_update_from accounts_policies d a r" "acc_is_test_tenant r = Some True"
  shows "acc_is_test_tenant n = Some True"
proof (rule ccontr)
  assume nt: "acc_is_test_tenant n \<noteq> Some True"
  have n: "n = apply_account_patch p r"
    using assms(1) by (auto simp: update_account_row_def Let_def split: sum.splits if_splits)
  have mem: "is_account_member d a (acc_id r)"
    using assms(3)
    by (auto simp: may_update_from_def rls_using_def accounts_policies_def view_own_accounts_def
          applicable_def using_expr_def)
  have vis: "r \<in> set (visible_accounts d a)" using assms(2) mem by (rule visible_accounts_mem)
  have ok: "update_own_accounts_check d a n = Inr True"
    using assms(1) n by (auto simp: update_account_row_def Let_def split: sum.splits if_splits)
  show False
  proof (cases "visible_accounts d a")
    case Nil
    with vis show ?thesis by simp
  next
    case (Cons v vs)
    show ?thesis
    proof (cases vs)
      case Nil
      with Cons vis have "v = r" by simp
      with ok nt Cons Nil assms(4) show ?thesis
        by (simp add: update_own_accounts_check_def)
    next
      case (Cons w ws)
      with ok nt \<open>visible_accounts d a = v # vs\<close> show ?thesis
        by (simp add: update_own_accounts_check_def)
    qed
  qed
qed

lemma test_tenant_flag_never_cleared:
  assumes "update_account d a i p = Inr d'"
  shows "list_all2 (\<lambda>r r'. acc_is_test_tenant r = Some True \<longrightarrow> acc_is_test_tenant r' = Some True)
           (accounts d) (accounts d')"
proof -
  let ?tgt = "\<lambda>r. acc_id r = i \<and> may_update_from accounts_policies d a r"
  from assms obtain rs where u: "update_rows ?tgt (update_account_row d a p) (accounts d) = Inr rs"
    and d': "accounts d' = rs"
    by (auto simp: update_account_def split: sum.splits)
  have "list_all2 (\<lambda>r r'. (\<not> ?tgt r \<and> r' = r) \<or> (?tgt r \<and> update_account_row d a p r = Inr r'))
          (accounts d) rs"
    using u by (rule update_rows_rel)
  then have "list_all2 (\<lambda>r r'. r \<in> set (accounts d) \<and>
                 ((\<not> ?tgt r \<and> r' = r) \<or> (?tgt r \<and> update_account_row d a p r = Inr r')))
          (accounts d) rs"
    by (auto simp: list_all2_conv_all_nth)
  then show ?thesis
    unfolding d'
    by (rule list_all2_mono) (auto dest: update_account_row_flag)
qed

text \<open>And a member's update that sets the flag is accepted.\<close>

lemma set_test_tenant_accepted:
  assumes "is_account_member d a (acc_id r)" "ap_is_test_tenant p = Some (Some True)"
  shows "update_account_row d a p r = Inr (apply_account_patch p r)"
  using assms
  by (simp add: update_account_row_def update_own_accounts_check_def apply_account_patch_def
        may_update_to_def rls_with_check_def rls_using_def accounts_policies_def
        view_own_accounts_def applicable_def with_check_expr_def using_expr_def)

text \<open>
  C8: the code at the failing input. User 10 belongs to accounts 1 and 2 and renames
  account 1, leaving the flag as it is (a no-op for the flag). The sub-select of the policy
  returns two rows and the update is refused with a cardinality error. User 11, who
  belongs to account 1 only, sends the same update and it is accepted.
\<close>

theorem rename_refused_for_member_of_two_accounts:
  "is_account_member example_store (Some 10) 1
   \<and> is_account_member example_store (Some 10) 2
   \<and> acc_is_test_tenant (apply_account_patch example_rename (hd (accounts example_store)))
       = acc_is_test_tenant (hd (accounts example_store))
   \<and> update_account example_store (Some 10) 1 example_rename = Inl cardinality_violation
   \<and> update_account example_store (Some 11) 1 example_rename
       = Inr (example_store\<lparr>accounts :=
           [\<lparr>acc_id = 1, acc_name = ''Acme Inc'', acc_slug = ''acme'',
             acc_is_test_tenant = Some False, acc_owner_user_id = 10\<rparr>,
            \<lparr>acc_id = 2, acc_name = ''Beta'', acc_slug = ''beta'',
             acc_is_test_tenant = Some False, acc_owner_user_id = 10\<rparr>]\<rparr>)"
  by code_simp

subsection \<open>Creating a team\<close>

lemma insert_team_member_refused:
  "insert_team_member d a r = Inl (insufficient_privilege ''team_members'')"
  by (simp add: insert_team_member_def may_insert_def rls_with_check_def
        team_members_policies_def applicable_def)

lemma insert_team_appends: "insert_team d a t = Inr d1 \<Longrightarrow> teams d1 = teams d @ [t]"
  by (auto simp: insert_team_def split: if_splits)

text \<open>
  C9. When the team insert succeeds and the insert of the lead membership fails,
  \<^verbatim>\<open>POST /teams\<close> leaves the store as the team insert made it (the team is in it, nothing
  is undone) and answers 500 with a body that holds the team and the membership error.
\<close>

theorem team_kept_when_lead_insert_fails:
  assumes "CreateTeamSchema b"
      and "insert_team d (Some uid)
             \<lparr>team_id = new_id, team_account_id = ctb_account_id b,
              team_name = ctb_name b, team_deleted_at = None\<rparr> = Inr d1"
      and "insert_team_member d1 (Some uid)
             \<lparr>tm_team_id = new_id, tm_user_id = uid, tm_role = ''lead''\<rparr> = Inl e"
  shows "post_team d (Some uid) new_id b =
           (d1, 500,
            team_partial_body ''Team created but failed to assign lead role.'' e
              \<lparr>team_id = new_id, team_account_id = ctb_account_id b,
               team_name = ctb_name b, team_deleted_at = None\<rparr>)
       \<and> \<lparr>team_id = new_id, team_account_id = ctb_account_id b,
          team_name = ctb_name b, team_deleted_at = None\<rparr> \<in> set (teams d1)"
  using assms insert_team_appends [OF assms(2)]
  by (simp add: post_team_def Let_def)

text \<open>User 10, owner of account 1, creates team 6.\<close>

lemma example_insert_team:
  "insert_team example_store (Some 10)
      \<lparr>team_id = 6, team_account_id = ctb_account_id example_team_body,
              team_name = ctb_name example_team_body, team_deleted_at = None\<rparr>
   = Inr (example_store\<lparr>teams := teams example_store @
        [\<lparr>team_id = 6, team_account_id = 1, team_name = ''Platform'', team_deleted_at = None\<rparr>]\<rparr>)"
  by code_simp

theorem team_kept_witness:
  "snd (post_team example_store (Some 10) 6 example_team_body)
     = (500, team_partial_body ''Team created but failed to assign lead role.''
               (insufficient_privilege ''team_members'')
               \<lparr>team_id = 6, team_account_id = 1, team_name = ''Platform'', team_deleted_at = None\<rparr>)
   \<and> map team_id (teams (fst (post_team example_store (Some 10) 6 example_team_body))) = [5, 6]"
proof -
  have v: "CreateTeamSchema example_team_body"
    by (simp add: CreateTeamSchema_def example_team_body_def)
  have m: "insert_team_member
             (example_store\<lparr>teams := teams example_store @
                [\<lparr>team_id = 6, team_account_id = 1, team_name = ''Platform'', team_deleted_at = None\<rparr>]\<rparr>)
             (Some 10) \<lparr>tm_team_id = 6, tm_user_id = 10, tm_role = ''lead''\<rparr>
           = Inl (insufficient_privilege ''team_members'')"
    by (rule insert_team_member_refused)
  have b: "ctb_account_id example_team_body = 1" "ctb_name example_team_body = ''Platform''"
    by (simp_all add: example_team_body_def)
  show ?thesis
    using team_kept_when_lead_insert_fails [OF v example_insert_team m]
    by (simp add: b example_store_def)
qed

subsection \<open>Creating a survey with its questions\<close>

lemma insert_question_rows_ok:
  "insert_question_rows pre d rs = Inr d' \<Longrightarrow>
   d' = d\<lparr>survey_questions := survey_questions d @ rs\<rparr> \<and>
   list_all survey_questions_response_type_check rs"
proof (induction rs arbitrary: d)
  case Nil
  then show ?case by simp
next
  case (Cons r rs)
  from Cons.prems have c: "survey_questions_response_type_check r"
    and rest: "insert_question_rows pre (d\<lparr>survey_questions := survey_questions d @ [r]\<rparr>) rs = Inr d'"
    by (auto simp: question_constraints_def split: option.splits if_splits)
  from Cons.IH [OF rest] c show ?case by simp
qed

lemma question_record_of_input:
  "question_record sid qid (question_json_of q) =
     Inr \<lparr>sq_id = qid, sq_survey_id = Some sid, sq_question_text = qi_question_text q,
          sq_response_type = QuestionTypeEnum (qi_question_type q),
          sq_order_index = qi_order_index q, sq_is_required = Some (qi_is_required q)\<rparr>"
  by (simp add: question_record_def question_json_of_def)

lemma insert_question_records_ok:
  "insert_question_records d sid (enumerate n (map question_json_of qs)) gen = Inr d' \<Longrightarrow>
   d' = d\<lparr>survey_questions := survey_questions d @ question_rows_from n gen sid qs\<rparr> \<and>
   list_all survey_questions_response_type_check (question_rows_from n gen sid qs)"
proof (induction qs arbitrary: d n)
  case Nil
  then show ?case by (simp add: question_rows_from_def)
next
  case (Cons q qs)
  let ?r = "\<lparr>sq_id = gen (Suc n), sq_survey_id = Some sid, sq_question_text = qi_question_text q,
          sq_response_type = QuestionTypeEnum (qi_question_type q),
          sq_order_index = qi_order_index q, sq_is_required = Some (qi_is_required q)\<rparr>"
  from Cons.prems have c: "survey_questions_response_type_check ?r"
    and rest: "insert_question_records (d\<lparr>survey_questions := survey_questions d @ [?r]\<rparr>) sid
                 (enumerate (Suc n) (map question_json_of qs)) gen = Inr d'"
    by (auto simp: question_record_of_input question_constraints_def
          split: option.splits if_splits)
  from Cons.IH [OF rest] c show ?case by (simp add: question_rows_from_def)
qed

lemma questionsToInsert_from: "questionsToInsert gen sid qs = question_rows_from 0 gen sid qs"
  by (simp add: questionsToInsert_def question_rows_from_def)

lemma response_type_of_input:
  "survey_questions_response_type_check
     \<lparr>sq_id = qid, sq_survey_id = sid, sq_question_text = t,
      sq_response_type = QuestionTypeEnum ty, sq_order_index = oi, sq_is_required = rq\<rparr>
   = (ty = qt_text)"
  by (cases ty) (simp_all add: survey_questions_response_type_check_def)

lemma checked_rows_are_text:
  "list_all survey_questions_response_type_check (question_rows_from n gen sid qs) =
   list_all (\<lambda>q. qi_question_type q = qt_text) qs"
proof (induction qs arbitrary: n)
  case Nil
  then show ?case by (simp add: question_rows_from_def)
next
  case (Cons q qs)
  then show ?case
    by (simp add: question_rows_from_def response_type_of_input)
qed

lemma create_survey_with_questions_ok:
  assumes "create_survey_with_questions d a gen acct team title active
             (map question_json_of qs) = Inr (d', b)"
  shows "d' = d\<lparr>surveys := surveys d @ [survey_row (gen 0) acct team title active],
                 survey_questions := survey_questions d @ questionsToInsert gen (gen 0) qs\<rparr>
       \<and> list_all (\<lambda>q. qi_question_type q = qt_text) qs
       \<and> gen 0 \<notin> survey_id ` set (surveys d)
       \<and> is_account_member d a acct"
proof -
  let ?sv = "survey_row (gen 0) acct team title active"
  let ?d1 = "d\<lparr>surveys := surveys d @ [?sv]\<rparr>"
  from assms have mem: "\<exists>am \<in> set (account_members d). am_account_id am = acct \<and> a = Some (am_user_id am)"
    by (auto simp: create_survey_with_questions_def split: if_splits)
  from assms have con: "survey_constraints d ?sv = None"
    and ins: "insert_question_records ?d1 (gen 0) (enumerate 0 (map question_json_of qs)) gen = Inr d'"
    by (auto simp: create_survey_with_questions_def Let_def
          split: if_splits option.splits sum.splits)
  from con have fresh: "gen 0 \<notin> survey_id ` set (surveys d)"
    by (auto simp: survey_constraints_def survey_row_def split: if_splits)
  from insert_question_records_ok [OF ins]
  have "d' = ?d1\<lparr>survey_questions := survey_questions ?d1 @ question_rows_from 0 gen (gen 0) qs\<rparr>"
    and "list_all survey_questions_response_type_check (question_rows_from 0 gen (gen 0) qs)"
    by simp_all
  moreover have "is_account_member d a acct"
    using mem by (auto simp: is_account_member_def)
  ultimately show ?thesis
    using fresh by (simp add: questionsToInsert_from checked_rows_are_text)
qed

lemma post_survey_rpc_cases:
  "(fst (snd (post_survey_rpc d a gen i)) \<noteq> 201 \<and> fst (post_survey_rpc d a gen i) = d)
   \<or> (fst (snd (post_survey_rpc d a gen i)) = 201 \<and>
       fst (post_survey_rpc d a gen i) =
         d\<lparr>surveys := surveys d @ [survey_row (gen 0) (csi_account_id i) (csi_team_id i)
                                     (csi_title i) (csi_is_active i)],
           survey_questions :=
             survey_questions d @ questionsToInsert gen (gen 0) (csi_questions i)\<rparr> \<and>
       list_all (\<lambda>q. qi_question_type q = qt_text) (csi_questions i) \<and>
       gen 0 \<notin> survey_id ` set (surveys d))"
proof (cases "CreateSurveySchema i")
  case False
  then show ?thesis by (simp add: post_survey_rpc_def)
next
  case True
  show ?thesis
  proof (cases "create_survey_with_questions d a gen (csi_account_id i) (csi_team_id i)
                (csi_title i) (csi_is_active i) (map question_json_of (csi_questions i))")
    case (Inl e)
    with True show ?thesis by (simp add: post_survey_rpc_def)
  next
    case (Inr x)
    obtain d' b where x: "x = (d', b)" by (cases x)
    from create_survey_with_questions_ok [OF Inr [unfolded x]] True Inr x
    show ?thesis by (simp add: post_survey_rpc_def)
  qed
qed

lemma insert_question_records_shape:
  "insert_question_records d sid kxs gen = Inr d' \<Longrightarrow>
   \<exists>rows. d' = d\<lparr>survey_questions := survey_questions d @ rows\<rparr> \<and>
          length rows = length kxs \<and> list_all (\<lambda>r. sq_survey_id r = Some sid) rows"
proof (induction kxs arbitrary: d)
  case Nil
  then show ?case by simp
next
  case (Cons kx kxs)
  obtain k x where kx: "kx = (k, x)" by (cases kx)
  from Cons.prems obtain r where r: "question_record sid (gen (Suc k)) x = Inr r"
    and rest: "insert_question_records (d\<lparr>survey_questions := survey_questions d @ [r]\<rparr>)
                 sid kxs gen = Inr d'"
    by (auto simp: kx split: sum.splits option.splits)
  from r have sid: "sq_survey_id r = Some sid"
    by (auto simp: question_record_def split: option.splits)
  from Cons.IH [OF rest] obtain rows where
    "d' = d\<lparr>survey_questions := survey_questions d @ [r]\<rparr>
            \<lparr>survey_questions := survey_questions (d\<lparr>survey_questions := survey_questions d @ [r]\<rparr>) @ rows\<rparr>"
    "length rows = length kxs" "list_all (\<lambda>r. sq_survey_id r = Some sid) rows"
    by blast
  then have "d' = d\<lparr>survey_questions := survey_questions d @ (r # rows)\<rparr> \<and>
          length (r # rows) = length (kx # kxs) \<and>
          list_all (\<lambda>r. sq_survey_id r = Some sid) (r # rows)"
    using sid by simp
  then show ?case by blast
qed

lemma create_survey_with_questions_shape:
  assumes "create_survey_with_questions d a gen acct team title active qs = Inr (d', b)"
  shows "surveys d' = surveys d @ [survey_row (gen 0) acct team title active]
       \<and> (\<exists>rows. survey_questions d' = survey_questions d @ rows \<and> length rows = length qs \<and>
             list_all (\<lambda>r. sq_survey_id r = Some (gen 0)) rows)"
proof -
  let ?d1 = "d\<lparr>surveys := surveys d @ [survey_row (gen 0) acct team title active]\<rparr>"
  from assms have "insert_question_records ?d1 (gen 0) (enumerate 0 qs) gen = Inr d'"
    by (auto simp: create_survey_with_questions_def Let_def
          split: if_splits option.splits sum.splits)
  from insert_question_records_shape [OF this] show ?thesis by auto
qed

text \<open>
  C2. \<^verbatim>\<open>POST /surveys\<close> through the procedure either is not answered with 201 and leaves
  the store as it was, or is answered with 201 and leaves the store with exactly the survey
  row and one question row per question of the request added. The procedure itself, for any
  JSON array, returns a store only with the survey row and as many question rows as the
  array has elements, all of that survey.
\<close>

theorem create_survey_with_questions_all_or_nothing:
  "((fst (snd (post_survey_rpc d a gen i)) \<noteq> 201 \<and> fst (post_survey_rpc d a gen i) = d)
    \<or> (fst (snd (post_survey_rpc d a gen i)) = 201 \<and>
        fst (post_survey_rpc d a gen i) =
          d\<lparr>surveys := surveys d @ [survey_row (gen 0) (csi_account_id i) (csi_team_id i)
                                      (csi_title i) (csi_is_active i)],
            survey_questions :=
              survey_questions d @ questionsToInsert gen (gen 0) (csi_questions i)\<rparr> \<and>
        gen 0 \<notin> survey_id ` set (surveys d)))
   \<and> (\<forall>d' b. create_survey_with_questions d a gen acct team title active qs = Inr (d', b) \<longrightarrow>
         surveys d' = surveys d @ [survey_row (gen 0) acct team title active] \<and>
         (\<exists>rows. survey_questions d' = survey_questions d @ rows \<and> length rows = length qs \<and>
                list_all (\<lambda>r. sq_survey_id r = Some (gen 0)) rows))"
  using post_survey_rpc_cases [of d a gen i] create_survey_with_questions_shape [of d a gen acct team title active qs]
  by blast

text \<open>A forced failure of the question insert: the second question has type \<^verbatim>\<open>scale\<close>.\<close>

lemma example_rpc_scale_status:
  "fst (snd (post_survey_rpc example_store_active (Some 10) example_gen example_scale_survey)) = 500"
  by code_simp

theorem create_survey_with_questions_witness:
  "fst (snd (post_survey_rpc example_store_active (Some 10) example_gen example_scale_survey)) = 500
   \<and> fst (post_survey_rpc example_store_active (Some 10) example_gen example_scale_survey)
       = example_store_active"
  using example_rpc_scale_status
    create_survey_with_questions_all_or_nothing
      [of example_store_active "Some 10" example_gen example_scale_survey]
  by simp

lemma is_account_member_surveys [simp]:
  "is_account_member (d\<lparr>surveys := x\<rparr>) a t = is_account_member d a t"
  by (simp add: is_account_member_def split: option.splits)

lemma visible_teams_surveys [simp]:
  "visible_teams (d\<lparr>surveys := x\<rparr>) a = visible_teams d a"
proof -
  have "may_read teams_policies (d\<lparr>surveys := x\<rparr>) a = may_read teams_policies d a"
    by (rule ext)
       (simp add: may_read_def rls_using_def teams_policies_def applicable_def using_expr_def)
  then show ?thesis by (simp add: visible_teams_def)
qed

lemma visible_team_members_surveys [simp]:
  "visible_team_members (d\<lparr>surveys := x\<rparr>) a = visible_team_members d a"
proof -
  have "may_read team_members_policies (d\<lparr>surveys := x\<rparr>) a
          = may_read team_members_policies d a"
    by (rule ext)
       (simp add: may_read_def rls_using_def team_members_policies_def applicable_def
          using_expr_def)
  then show ?thesis by (simp add: visible_team_members_def)
qed

lemma is_team_lead_surveys [simp]:
  "is_team_lead (d\<lparr>surveys := x\<rparr>) a t = is_team_lead d a t"
  by (simp add: is_team_lead_def)

lemma is_team_member_surveys [simp]:
  "is_team_member (d\<lparr>surveys := x\<rparr>) a t = is_team_member d a t"
  by (simp add: is_team_member_def split: option.splits)

lemma surveys_using_surveys [simp]:
  "rls_using surveys_policies (d\<lparr>surveys := x\<rparr>) a c r = rls_using surveys_policies d a c r"
  by (simp add: rls_using_def surveys_policies_def applicable_def using_expr_def)

lemma surveys_write_needs_lead:
  "rls_with_check surveys_policies d a INSERT r \<Longrightarrow> is_team_lead d a (survey_team_id r)"
  "rls_with_check surveys_policies d a UPDATE r \<Longrightarrow> is_team_lead d a (survey_team_id r)"
  "rls_using surveys_policies d a UPDATE r \<Longrightarrow> is_team_lead d a (survey_team_id r)"
  "rls_using surveys_policies d a DELETE r \<Longrightarrow> is_team_lead d a (survey_team_id r)"
  by (auto simp: rls_with_check_def rls_using_def surveys_policies_def applicable_def
        with_check_expr_def using_expr_def)

lemma lead_may_delete:
  "is_team_lead d a t \<Longrightarrow> survey_team_id r = t \<Longrightarrow> may_delete surveys_policies d a r"
  by (cases a)
     (auto simp: may_delete_def rls_using_def surveys_policies_def applicable_def
        using_expr_def auth_role_def is_team_lead_def)

lemma insert_survey_ok:
  assumes "insert_survey d a r = Inr d1"
  shows "d1 = d\<lparr>surveys := surveys d @ [r]\<rparr> \<and> is_team_lead d a (survey_team_id r)
       \<and> survey_id r \<notin> survey_id ` set (surveys d)"
proof -
  from assms have ok: "may_insert surveys_policies d a r" and con: "survey_constraints d r = None"
    and d1: "d1 = d\<lparr>surveys := surveys d @ [r]\<rparr>"
    by (auto simp: insert_survey_def split: option.splits if_splits)
  from ok have "is_team_lead d a (survey_team_id r)"
    by (simp add: may_insert_def surveys_write_needs_lead)
  moreover from con have "survey_id r \<notin> survey_id ` set (surveys d)"
    by (auto simp: survey_constraints_def split: if_splits)
  ultimately show ?thesis using d1 by simp
qed

lemma delete_just_inserted:
  assumes "is_team_lead d a (survey_team_id r)" "survey_id r \<notin> survey_id ` set (surveys d)"
  shows "\<exists>d'. delete_survey (d\<lparr>surveys := surveys d @ [r]\<rparr>) a (survey_id r) = Inr d'
          \<and> surveys d' = surveys d
          \<and> survey_questions d' = filter (\<lambda>q. sq_survey_id q \<noteq> Some (survey_id r)) (survey_questions d)"
proof -
  let ?d1 = "d\<lparr>surveys := surveys d @ [r]\<rparr>"
  let ?tgt = "\<lambda>x. survey_id x = survey_id r \<and> may_delete surveys_policies ?d1 a x"
  have t: "?tgt r"
    using assms(1) by (simp add: lead_may_delete)
  then have ne: "filter ?tgt (surveys ?d1) \<noteq> []" by simp
  have keep: "filter (\<lambda>x. \<not> ?tgt x) (surveys d) = surveys d"
  proof -
    have "\<forall>x \<in> set (surveys d). survey_id x \<noteq> survey_id r"
      using assms(2) by (auto simp: image_iff)
    then show ?thesis by (simp add: filter_id_conv)
  qed
  show ?thesis
    using ne t keep by (simp add: delete_survey_def Let_def)
qed

lemma insert_survey_questions_ok:
  "insert_survey_questions d a rs = Inr d' \<Longrightarrow>
   d' = d\<lparr>survey_questions := survey_questions d @ rs\<rparr> \<and>
   list_all survey_questions_response_type_check rs"
  by (auto simp: insert_survey_questions_def dest: insert_question_rows_ok
        split: if_splits sum.splits option.splits)

text \<open>
  C7. In the two-step handler, when the survey insert succeeds and the questions insert
  fails, the answer is 500 with the message of the questions' error, and the survey row
  just created is deleted: the store has the surveys it had before the request.
\<close>

theorem two_step_deletes_survey_and_reports_questions_error:
  assumes "CreateSurveySchema i"
      and "insert_survey d a (survey_row (gen 0) (csi_account_id i) (csi_team_id i)
                                (csi_title i) (csi_is_active i)) = Inr d1"
      and "insert_survey_questions d1 a (questionsToInsert gen (gen 0) (csi_questions i))
             = Inl questionsError"
  shows "snd (post_survey_two_step d a gen i) = (500, error_body (message questionsError))
       \<and> surveys (fst (post_survey_two_step d a gen i)) = surveys d
       \<and> gen 0 \<notin> survey_id ` set (surveys (fst (post_survey_two_step d a gen i)))"
proof -
  let ?sv = "survey_row (gen 0) (csi_account_id i) (csi_team_id i) (csi_title i) (csi_is_active i)"
  have id: "survey_id ?sv = gen 0" by (simp add: survey_row_def)
  from insert_survey_ok [OF assms(2)]
  have d1: "d1 = d\<lparr>surveys := surveys d @ [?sv]\<rparr>"
    and lead: "is_team_lead d a (survey_team_id ?sv)"
    and fresh: "gen 0 \<notin> survey_id ` set (surveys d)"
    by (simp_all add: id)
  from delete_just_inserted [OF lead, of] fresh
  obtain d' where del: "delete_survey d1 a (gen 0) = Inr d'" and sv: "surveys d' = surveys d"
    unfolding d1 id by blast
  have "post_survey_two_step d a gen i = (d', 500, error_body (message questionsError))"
    using assms del by (simp add: post_survey_two_step_def Let_def id persisted_def)
  then show ?thesis using sv fresh by simp
qed

text \<open>User 10, lead of team 5, sends a survey whose second question has type \<^verbatim>\<open>scale\<close>.\<close>

lemma example_two_step_survey:
  "insert_survey example_store_active (Some 10)
     (survey_row (example_gen 0) (csi_account_id example_scale_survey)
        (csi_team_id example_scale_survey) (csi_title example_scale_survey)
        (csi_is_active example_scale_survey))
   = Inr (example_store_active\<lparr>surveys := [example_template, survey_row 100 1 (Some 5) ''Mood'' True]\<rparr>)"
  by code_simp

lemma example_two_step_questions:
  "insert_survey_questions
     (example_store_active\<lparr>surveys := [example_template, survey_row 100 1 (Some 5) ''Mood'' True]\<rparr>)
     (Some 10)
     (questionsToInsert example_gen (example_gen 0) (csi_questions example_scale_survey))
   = Inl (check_violation ''survey_questions'' ''survey_questions_response_type_check'')"
  by code_simp

theorem two_step_witness:
  "snd (post_survey_two_step example_store_active (Some 10) example_gen example_scale_survey)
     = (500, error_body
          ''new row for relation survey_questions violates check constraint survey_questions_response_type_check'')
   \<and> surveys (fst (post_survey_two_step example_store_active (Some 10) example_gen
                      example_scale_survey)) = [example_template]"
proof -
  have v: "CreateSurveySchema example_scale_survey"
    by (simp add: CreateSurveySchema_def example_scale_survey_def)
  have s: "surveys example_store_active = [example_template]"
    by (simp add: example_store_active_def example_store_def example_template_def)
  show ?thesis
    using two_step_deletes_survey_and_reports_questions_error
            [OF v example_two_step_survey example_two_step_questions]
    by (simp add: s)
qed

lemma post_survey_two_step_cases:
  "(fst (snd (post_survey_two_step d a gen i)) \<noteq> 201 \<and>
      surveys (fst (post_survey_two_step d a gen i)) = surveys d \<and>
      set (survey_questions (fst (post_survey_two_step d a gen i))) \<subseteq> set (survey_questions d))
   \<or> (fst (snd (post_survey_two_step d a gen i)) = 201 \<and>
       fst (post_survey_two_step d a gen i) =
         d\<lparr>surveys := surveys d @ [survey_row (gen 0) (csi_account_id i) (csi_team_id i)
                                     (csi_title i) (csi_is_active i)],
           survey_questions :=
             survey_questions d @ questionsToInsert gen (gen 0) (csi_questions i)\<rparr> \<and>
       list_all (\<lambda>q. qi_question_type q = qt_text) (csi_questions i) \<and>
       is_team_lead d a (csi_team_id i))"
proof (cases "CreateSurveySchema i")
  case False
  then show ?thesis by (simp add: post_survey_two_step_def)
next
  case True
  let ?sv = "survey_row (gen 0) (csi_account_id i) (csi_team_id i) (csi_title i) (csi_is_active i)"
  have id: "survey_id ?sv = gen 0" "survey_team_id ?sv = csi_team_id i" by (simp_all add: survey_row_def)
  show ?thesis
  proof (cases "insert_survey d a ?sv")
    case (Inl e)
    with True show ?thesis by (simp add: post_survey_two_step_def Let_def)
  next
    case (Inr d1)
    from insert_survey_ok [OF Inr]
    have d1: "d1 = d\<lparr>surveys := surveys d @ [?sv]\<rparr>"
      and lead: "is_team_lead d a (csi_team_id i)"
      and fresh: "gen 0 \<notin> survey_id ` set (surveys d)"
      by (simp_all add: id)
    show ?thesis
    proof (cases "insert_survey_questions d1 a (questionsToInsert gen (gen 0) (csi_questions i))")
      case (Inl qe)
      from lead have lead': "is_team_lead d a (survey_team_id ?sv)" by (simp add: id)
      from delete_just_inserted [OF lead'] fresh
      obtain d' where del: "delete_survey d1 a (gen 0) = Inr d'" and sv: "surveys d' = surveys d"
        and qs: "survey_questions d' = filter (\<lambda>q. sq_survey_id q \<noteq> Some (gen 0)) (survey_questions d)"
        unfolding d1 id by blast
      have "post_survey_two_step d a gen i = (d', 500, error_body (message qe))"
        using True Inr Inl del by (simp add: post_survey_two_step_def Let_def id persisted_def)
      then show ?thesis using sv qs by auto
    next
      case (Inr d2)
      from insert_survey_questions_ok [OF Inr]
      have d2: "d2 = d1\<lparr>survey_questions := survey_questions d1 @ questionsToInsert gen (gen 0) (csi_questions i)\<rparr>"
        and chk: "list_all survey_questions_response_type_check (questionsToInsert gen (gen 0) (csi_questions i))"
        by simp_all
      have "post_survey_two_step d a gen i =
              (d2, 201, survey_body ?sv (questionsToInsert gen (gen 0) (csi_questions i)))"
        using True \<open>insert_survey d a ?sv = Inr d1\<close> Inr
        by (simp add: post_survey_two_step_def Let_def id)
      then show ?thesis
        using d2 d1 chk lead
        by (simp add: questionsToInsert_from checked_rows_are_text)
    qed
  qed
qed

lemma text_rows:
  "list_all (\<lambda>r. sq_response_type r = ''text'') (question_rows_from n gen sid qs) =
   list_all (\<lambda>q. qi_question_type q = qt_text) qs"
proof (induction qs arbitrary: n)
  case Nil
  then show ?case by (simp add: question_rows_from_def)
next
  case (Cons q qs)
  have "(QuestionTypeEnum (qi_question_type q) = ''text'') = (qi_question_type q = qt_text)"
    by (cases "qi_question_type q") simp_all
  with Cons show ?case by (simp add: question_rows_from_def)
qed

text \<open>
  C10. A question of type \<^verbatim>\<open>scale\<close> or \<^verbatim>\<open>boolean\<close> gives a row that violates the check
  constraint on \<^verbatim>\<open>response_type\<close>. A request that holds such a question is not answered
  with 201 on either path and persists nothing of itself: through the procedure the store
  is as it was, through the two-step handler it has the surveys it had and no question it
  did not have. A request answered with 201, on either path, has persisted its questions,
  all of them with \<^verbatim>\<open>response_type\<close> = \<^verbatim>\<open>text\<close>.
\<close>

theorem only_text_questions_persist:
  "((qi_question_type q = qt_scale \<or> qi_question_type q = qt_boolean) \<longrightarrow>
      \<not> survey_questions_response_type_check
          \<lparr>sq_id = qid, sq_survey_id = sid, sq_question_text = qi_question_text q,
           sq_response_type = QuestionTypeEnum (qi_question_type q),
           sq_order_index = qi_order_index q, sq_is_required = Some (qi_is_required q)\<rparr>)
   \<and> ((\<exists>q \<in> set (csi_questions i). qi_question_type q = qt_scale \<or> qi_question_type q = qt_boolean)
        \<longrightarrow> fst (snd (post_survey_rpc d a gen i)) \<noteq> 201
          \<and> fst (post_survey_rpc d a gen i) = d
          \<and> fst (snd (post_survey_two_step d a gen i)) \<noteq> 201
          \<and> surveys (fst (post_survey_two_step d a gen i)) = surveys d
          \<and> set (survey_questions (fst (post_survey_two_step d a gen i)))
                \<subseteq> set (survey_questions d))
   \<and> (fst (snd (post_survey_rpc d a gen i)) = 201 \<longrightarrow>
        survey_questions (fst (post_survey_rpc d a gen i))
          = survey_questions d @ questionsToInsert gen (gen 0) (csi_questions i)
        \<and> list_all (\<lambda>r. sq_response_type r = ''text'')
             (questionsToInsert gen (gen 0) (csi_questions i)))
   \<and> (fst (snd (post_survey_two_step d a gen i)) = 201 \<longrightarrow>
        survey_questions (fst (post_survey_two_step d a gen i))
          = survey_questions d @ questionsToInsert gen (gen 0) (csi_questions i)
        \<and> list_all (\<lambda>r. sq_response_type r = ''text'')
             (questionsToInsert gen (gen 0) (csi_questions i)))"
proof -
  let ?bad = "\<exists>q \<in> set (csi_questions i). qi_question_type q = qt_scale \<or> qi_question_type q = qt_boolean"
  have row: "(qi_question_type q = qt_scale \<or> qi_question_type q = qt_boolean) \<longrightarrow>
      \<not> survey_questions_response_type_check
          \<lparr>sq_id = qid, sq_survey_id = sid, sq_question_text = qi_question_text q,
           sq_response_type = QuestionTypeEnum (qi_question_type q),
           sq_order_index = qi_order_index q, sq_is_required = Some (qi_is_required q)\<rparr>"
    by (auto simp: response_type_of_input)
  have nt: "\<not> list_all (\<lambda>q. qi_question_type q = qt_text) (csi_questions i)" if ?bad
  proof -
    from that obtain q where "q \<in> set (csi_questions i)" "qi_question_type q \<noteq> qt_text"
      by auto
    then show ?thesis by (auto simp: list_all_iff)
  qed
  have rpc_bad: "fst (snd (post_survey_rpc d a gen i)) \<noteq> 201 \<and> fst (post_survey_rpc d a gen i) = d"
    if ?bad
    using nt [OF that] post_survey_rpc_cases [of d a gen i] by blast
  have two_bad: "fst (snd (post_survey_two_step d a gen i)) \<noteq> 201
          \<and> surveys (fst (post_survey_two_step d a gen i)) = surveys d
          \<and> set (survey_questions (fst (post_survey_two_step d a gen i)))
                \<subseteq> set (survey_questions d)"
    if ?bad
    using nt [OF that] post_survey_two_step_cases [of d a gen i] by blast
  have rpc_ok: "survey_questions (fst (post_survey_rpc d a gen i))
          = survey_questions d @ questionsToInsert gen (gen 0) (csi_questions i)
        \<and> list_all (\<lambda>r. sq_response_type r = ''text'')
             (questionsToInsert gen (gen 0) (csi_questions i))"
    if "fst (snd (post_survey_rpc d a gen i)) = 201"
    using that post_survey_rpc_cases [of d a gen i]
    by (auto simp: questionsToInsert_from text_rows)
  have two_ok: "survey_questions (fst (post_survey_two_step d a gen i))
          = survey_questions d @ questionsToInsert gen (gen 0) (csi_questions i)
        \<and> list_all (\<lambda>r. sq_response_type r = ''text'')
             (questionsToInsert gen (gen 0) (csi_questions i))"
    if "fst (snd (post_survey_two_step d a gen i)) = 201"
    using that post_survey_two_step_cases [of d a gen i]
    by (auto simp: questionsToInsert_from text_rows)
  show ?thesis
    using row rpc_bad two_bad rpc_ok two_ok by blast
qed

lemma example_has_scale:
  "\<exists>q \<in> set (csi_questions example_scale_survey).
      qi_question_type q = qt_scale \<or> qi_question_type q = qt_boolean"
  by (simp add: example_scale_survey_def)

theorem only_text_questions_witness:
  "qt_scale \<in> qi_question_type ` set (csi_questions example_scale_survey)
   \<and> fst (post_survey_rpc example_store_active (Some 10) example_gen example_scale_survey)
       = example_store_active
   \<and> surveys (fst (post_survey_two_step example_store_active (Some 10) example_gen
                      example_scale_survey)) = surveys example_store_active"
proof -
  have "qt_scale \<in> qi_question_type ` set (csi_questions example_scale_survey)"
    by (simp add: example_scale_survey_def)
  then show ?thesis
    using example_has_scale
      only_text_questions_persist
        [of _ _ _ example_scale_survey example_store_active "Some 10" example_gen]
    by blast
qed

subsection \<open>Who may write surveys\<close>














text \<open>
  The condition on the column is needed. On \<open>example_store_active\<close>, which adds the column
  that none of the migrations declares, the two-step handler refuses user 11, a
  contributor of team 5, and the procedure creates the survey for team 5.
\<close>

lemma rpc_with_column_creates_survey_for_non_lead:
  "is_account_member example_store_active (Some 11) 1
   \<and> \<not> is_team_lead example_store_active (Some 11) (Some 5)
   \<and> csi_team_id example_text_survey = Some 5
   \<and> snd (post_survey_two_step example_store_active (Some 11) example_gen example_text_survey)
       = (500, error_body (message (insufficient_privilege ''surveys'')))
   \<and> fst (snd (post_survey_rpc example_store_active (Some 11) example_gen example_text_survey)) = 201
   \<and> surveys (fst (post_survey_rpc example_store_active (Some 11) example_gen example_text_survey))
       = [example_template, survey_row 100 1 (Some 5) ''Retro'' True]"
  by code_simp

end
